theory Spec2Isabelle
  imports Complex_Main
begin

section \<open>Data model of the session store\<close>

text \<open>
  The route handlers of the repository (voice script, provider status callback, call
  creation) read and mutate one in-memory table of call sessions. The table lives in the
  module \<^verbatim>\<open>@/lib/session-store\<close>; the handlers import \<^verbatim>\<open>getSession\<close>,
  \<^verbatim>\<open>updateStatus\<close>, \<^verbatim>\<open>appendMessage\<close> and the other mutators from it.
  A JavaScript string is represented by the bytes of its UTF-8 encoding; JSON numbers are
  rationals.
\<close>

datatype role = System | User | Assistant

datatype call_status = Draft | Queued | Ringing | InProgress | Completed | NoAnswer | Failed

record turn =
  turn_id :: nat
  role :: role
  content :: string
  timestamp :: nat

record config =
  agentName :: string
  persona :: string
  greeting :: string
  objective :: string
  guardrails :: string
  closingStrategy :: string
  voice :: string
  language :: string
  temperature :: rat
  targetNumber :: string
  customerName :: "string option"
  company :: "string option"
  campaign :: "string option"
  openingQuestion :: string

record session =
  sessionId :: string
  callSid :: "string option"
  config :: config
  status :: call_status
  transcript :: "turn list"
  summary :: "string option"
  lastError :: "string option"
  createdAt :: nat
  updatedAt :: nat

text \<open>
  The store: the sessions in insertion order, and the clock that supplies timestamps and
  turn identifiers.
\<close>

record store =
  sessions :: "session list"
  clock :: nat

subsection \<open>Lookup\<close>

text \<open>
  Modelled from the spec: \<^verbatim>\<open>getSession\<close> of the session store, which is not among the
  sources. ``\<^verbatim>\<open>get(sessionId) -> Session | absent\<close>: lookup by primary key.''
\<close>

definition getSession :: "store \<Rightarrow> string \<Rightarrow> session option" where
  "getSession st sid = find (\<lambda>s. sessionId s = sid) (sessions st)"

text \<open>
  Modelled from the spec: \<^verbatim>\<open>lookupSessionByCallSid\<close> of the session store, which is not
  among the sources. ``\<^verbatim>\<open>findByCallId(callId) -> Session | absent\<close>: secondary lookup.''
\<close>

definition lookupSessionByCallSid :: "store \<Rightarrow> string \<Rightarrow> session option" where
  "lookupSessionByCallSid st csid = find (\<lambda>s. callSid s = Some csid) (sessions st)"

subsection \<open>Mutation of one session\<close>

fun modify :: "string \<Rightarrow> (session \<Rightarrow> session) \<Rightarrow> session list \<Rightarrow> session list" where
  "modify sid f [] = []"
| "modify sid f (s # ss) = (if sessionId s = sid then f s # ss else s # modify sid f ss)"

text \<open>
  Modelled from the spec: the common shape of the store's mutators, which are not among the
  sources. ``Every mutator updates \<^verbatim>\<open>updatedAt\<close>''; a mutator called for an absent
  session changes nothing.
\<close>

definition mutate :: "store \<Rightarrow> string \<Rightarrow> (session \<Rightarrow> session) \<Rightarrow> store" where
  "mutate st sid f =
     (case getSession st sid of
        None \<Rightarrow> st
      | Some _ \<Rightarrow> \<lparr>sessions = modify sid (\<lambda>s. (f s)\<lparr>updatedAt := clock st\<rparr>) (sessions st),
                  clock = Suc (clock st)\<rparr>)"

subsection \<open>Status state machine\<close>

text \<open>
  Modelled from the spec: the transitions of the status state machine, which the absent
  \<^verbatim>\<open>updateStatus\<close> enforces. ``States: draft \<rightarrow> queued \<rightarrow> ringing \<rightarrow> in-progress \<rightarrow>
  {completed | no-answer | failed}. in-progress may be re-entered from itself. No terminal
  state may transition to any other state.''
\<close>

fun successors :: "call_status \<Rightarrow> call_status list" where
  "successors Draft = [Queued]"
| "successors Queued = [Ringing]"
| "successors Ringing = [InProgress]"
| "successors InProgress = [InProgress, Completed, NoAnswer, Failed]"
| "successors Completed = []"
| "successors NoAnswer = []"
| "successors Failed = []"

text \<open>
  A status is reachable from another when a path of one or more transitions leads to it;
  no path without a repeated state is longer than four transitions.
\<close>

fun reach_within :: "nat \<Rightarrow> call_status \<Rightarrow> call_status \<Rightarrow> bool" where
  "reach_within 0 a b = False"
| "reach_within (Suc n) a b =
     (b \<in> set (successors a) \<or> list_ex (\<lambda>m. reach_within n m b) (successors a))"

definition reachable :: "call_status \<Rightarrow> call_status \<Rightarrow> bool" where
  "reachable a b = reach_within 4 a b"

text \<open>
  Modelled from the spec: \<^verbatim>\<open>updateStatus\<close> of the session store, which is not among the
  sources. ``Applies the transition if legal per the state machine; illegal transitions are
  ignored rather than raising''; ``an update targeting a state that is not reachable from
  the current state is discarded.''
\<close>

definition updateStatus :: "store \<Rightarrow> string \<Rightarrow> call_status \<Rightarrow> store" where
  "updateStatus st sid tgt =
     (case getSession st sid of
        None \<Rightarrow> st
      | Some s \<Rightarrow>
          if reachable (status s) tgt then mutate st sid (\<lambda>s. s\<lparr>status := tgt\<rparr>) else st)"

text \<open>The ordering of the spec, with the three terminal statuses above \<^verbatim>\<open>in-progress\<close>.\<close>

fun rank :: "call_status \<Rightarrow> nat" where
  "rank Draft = 0"
| "rank Queued = 1"
| "rank Ringing = 2"
| "rank InProgress = 3"
| "rank Completed = 4"
| "rank NoAnswer = 4"
| "rank Failed = 4"

fun terminal :: "call_status \<Rightarrow> bool" where
  "terminal Completed = True"
| "terminal NoAnswer = True"
| "terminal Failed = True"
| "terminal _ = False"

text \<open>
  What an observer may see in two successive readings of a status: the rank does not
  decrease, and a terminal status stays what it is.
\<close>

definition forward :: "call_status \<Rightarrow> call_status \<Rightarrow> bool" where
  "forward a b = (rank a \<le> rank b \<and> (if terminal a then b = a else True))"

text \<open>
  The statuses read before the first and after each of a sequence of \<^verbatim>\<open>updateStatus\<close>
  calls on one session.
\<close>

fun trajectory :: "store \<Rightarrow> string \<Rightarrow> call_status list \<Rightarrow> call_status list" where
  "trajectory st sid [] = (case getSession st sid of None \<Rightarrow> [] | Some s \<Rightarrow> [status s])"
| "trajectory st sid (t # ts) =
     (case getSession st sid of
        None \<Rightarrow> []
      | Some s \<Rightarrow> status s # trajectory (updateStatus st sid t) sid ts)"

subsection \<open>The other mutators\<close>

text \<open>
  Modelled from the spec: \<^verbatim>\<open>createSession\<close> of the session store, which is not among
  the sources. ``Allocates a new session with status = draft, empty transcript, no summary,
  no error.'' The route passes the identifier it drew; a session already stored under that
  identifier is replaced in place, as a keyed table does.
\<close>

definition createSession :: "store \<Rightarrow> string \<Rightarrow> config \<Rightarrow> store" where
  "createSession st sid cfg =
     (let fresh = \<lparr>sessionId = sid, callSid = None, config = cfg, status = Draft,
                    transcript = [], summary = None, lastError = None,
                    createdAt = clock st, updatedAt = clock st\<rparr>
      in \<lparr>sessions = (case getSession st sid of
                         None \<Rightarrow> sessions st @ [fresh]
                       | Some _ \<Rightarrow> modify sid (\<lambda>_. fresh) (sessions st)),
          clock = Suc (clock st)\<rparr>)"

text \<open>
  Modelled from the spec: \<^verbatim>\<open>setCallSid\<close> of the session store, which is not among the
  sources. ``Sets the provider call identifier once; it must never silently overwrite a
  different value'' (the idempotent no-op the spec allows).
\<close>

definition setCallSid :: "store \<Rightarrow> string \<Rightarrow> string \<Rightarrow> store" where
  "setCallSid st sid csid =
     (case getSession st sid of
        None \<Rightarrow> st
      | Some s \<Rightarrow>
          (case callSid s of
             None \<Rightarrow> mutate st sid (\<lambda>s. s\<lparr>callSid := Some csid\<rparr>)
           | Some _ \<Rightarrow> st))"

text \<open>
  Modelled from the spec: \<^verbatim>\<open>appendMessage\<close> of the session store, which is not among
  the sources. ``Appends a Turn with a fresh id and current timestamp''; validating the
  content is left to the caller.
\<close>

definition appendMessage :: "store \<Rightarrow> string \<Rightarrow> role \<Rightarrow> string \<Rightarrow> store" where
  "appendMessage st sid r c =
     mutate st sid (\<lambda>s. s\<lparr>transcript := transcript s @
        [\<lparr>turn_id = clock st, role = r, content = c, timestamp = clock st\<rparr>]\<rparr>)"

text \<open>
  Modelled from the spec: \<^verbatim>\<open>setSummary\<close> of the session store, which is not among the
  sources. A ``single-field mutator'' that refreshes \<^verbatim>\<open>updatedAt\<close>; by the data model
  ``summary is set only when status == completed and only once'', so a session that is not
  completed, or that has a summary already, is left as it is.
\<close>

definition setSummary :: "store \<Rightarrow> string \<Rightarrow> string \<Rightarrow> store" where
  "setSummary st sid text =
     (case getSession st sid of
        None \<Rightarrow> st
      | Some s \<Rightarrow>
          if summary s = None \<and> status s = Completed
          then mutate st sid (\<lambda>s. s\<lparr>summary := Some text\<rparr>)
          else st)"

text \<open>
  Modelled from the spec: \<^verbatim>\<open>setError\<close> of the session store, which is not among the
  sources. ``Single-field mutators; both refresh \<^verbatim>\<open>updatedAt\<close>.''
\<close>

definition setError :: "store \<Rightarrow> string \<Rightarrow> string \<Rightarrow> store" where
  "setError st sid text = mutate st sid (\<lambda>s. s\<lparr>lastError := Some text\<rparr>)"

definition is_system :: "turn \<Rightarrow> bool" where
  "is_system t = (role t = System)"

text \<open>
  Modelled from the spec: \<^verbatim>\<open>ensureGreetingCaptured\<close> of the session store, which is not
  among the sources. ``Idempotently inserts the one allowed system-role greeting turn if
  none exists yet.'' The transcript is ``never reordered or mutated in place; only appended
  to'', so the greeting turn is appended like every other turn.
\<close>

definition ensureGreetingCaptured :: "store \<Rightarrow> string \<Rightarrow> string \<Rightarrow> store" where
  "ensureGreetingCaptured st sid text =
     (case getSession st sid of
        None \<Rightarrow> st
      | Some s \<Rightarrow>
          if list_ex is_system (transcript s) then st
          else mutate st sid (\<lambda>s. s\<lparr>transcript := transcript s @
                 [\<lparr>turn_id = clock st, role = System, content = text, timestamp = clock st\<rparr>]\<rparr>))"


definition role_name :: "role \<Rightarrow> string" where
  "role_name r = (case r of System \<Rightarrow> ''system'' | User \<Rightarrow> ''user'' | Assistant \<Rightarrow> ''assistant'')"

text \<open>
  Modelled from the spec: \<^verbatim>\<open>getMessagesForModel\<close> of the session store, which is not
  among the sources. ``The ordered transcript filtered to system/user/assistant roles (the
  full history, in order).''
\<close>

definition getMessagesForModel :: "store \<Rightarrow> string \<Rightarrow> (string \<times> string) list" where
  "getMessagesForModel st sid =
     (case getSession st sid of
        None \<Rightarrow> []
      | Some s \<Rightarrow> map (\<lambda>t. (role_name (role t), content t)) (transcript s))"


text \<open>At most one system turn.\<close>

definition one_greeting :: "turn list \<Rightarrow> bool" where
  "one_greeting ts = (length (filter is_system ts) \<le> 1)"

section \<open>Strings\<close>

text \<open>
  \<^verbatim>\<open>String.prototype.trim\<close> removes from both ends the white space and line
  terminators of ECMAScript: U+0009 to U+000D, U+0020, U+00A0, U+1680, U+2000 to U+200A,
  U+2028, U+2029, U+202F, U+205F, U+3000 and U+FEFF. On UTF-8 bytes these are six single
  bytes, the pair C2 A0 and seventeen triples. A lead byte never occurs inside another
  character, so matching the encodings at either end of a well-formed string removes
  exactly these characters.
\<close>

definition space1 :: "char \<Rightarrow> bool" where
  "space1 a = (of_char a \<in> set [9, 10, 11, 12, 13, 32 :: nat])"

definition space2 :: "char \<Rightarrow> char \<Rightarrow> bool" where
  "space2 a b = (of_char a = (194 :: nat) \<and> of_char b = (160 :: nat))"

definition space3 :: "char \<Rightarrow> char \<Rightarrow> char \<Rightarrow> bool" where
  "space3 a b c =
     ((of_char a = (225 :: nat) \<and> of_char b = (154 :: nat) \<and> of_char c = (128 :: nat)) \<or>
      (of_char a = (226 :: nat) \<and> of_char b = (128 :: nat) \<and>
         (128 \<le> (of_char c :: nat) \<and> (of_char c :: nat) \<le> 138 \<or>
          of_char c \<in> set [168, 169, 175 :: nat])) \<or>
      (of_char a = (226 :: nat) \<and> of_char b = (129 :: nat) \<and> of_char c = (159 :: nat)) \<or>
      (of_char a = (227 :: nat) \<and> of_char b = (128 :: nat) \<and> of_char c = (128 :: nat)) \<or>
      (of_char a = (239 :: nat) \<and> of_char b = (187 :: nat) \<and> of_char c = (191 :: nat)))"

fun trimStart :: "string \<Rightarrow> string" where
  "trimStart (a # b # c # s) =
     (if space1 a then trimStart (b # c # s)
      else if space2 a b then trimStart (c # s)
      else if space3 a b c then trimStart s
      else a # b # c # s)"
| "trimStart [a, b] =
     (if space1 a then trimStart [b] else if space2 a b then [] else [a, b])"
| "trimStart [a] = (if space1 a then [] else [a])"
| "trimStart [] = []"

text \<open>The same from the other end, on the reversed bytes.\<close>

fun trimEnd_rev :: "string \<Rightarrow> string" where
  "trimEnd_rev (c # b # a # s) =
     (if space1 c then trimEnd_rev (b # a # s)
      else if space2 b c then trimEnd_rev (a # s)
      else if space3 a b c then trimEnd_rev s
      else c # b # a # s)"
| "trimEnd_rev [c, b] =
     (if space1 c then trimEnd_rev [b] else if space2 b c then [] else [c, b])"
| "trimEnd_rev [c] = (if space1 c then [] else [c])"
| "trimEnd_rev [] = []"

definition trim :: "string \<Rightarrow> string" where
  "trim s = rev (trimEnd_rev (rev (trimStart s)))"

text \<open>
  \<^verbatim>\<open>toLowerCase\<close> and \<^verbatim>\<open>toUpperCase\<close> on the ASCII letters; other bytes are left
  alone. The routes only compare the lowered status with ASCII words, and the one character
  outside ASCII whose lower case is an ASCII letter (U+212A, k) occurs in none of them.
\<close>

definition lower_char :: "char \<Rightarrow> char" where
  "lower_char c =
     (if 65 \<le> (of_char c :: nat) \<and> (of_char c :: nat) \<le> 90
      then char_of (of_char c + (32 :: nat)) else c)"

definition upper_char :: "char \<Rightarrow> char" where
  "upper_char c =
     (if 97 \<le> (of_char c :: nat) \<and> (of_char c :: nat) \<le> 122
      then char_of (of_char c - (32 :: nat)) else c)"

definition toLowerCase :: "string \<Rightarrow> string" where
  "toLowerCase s = map lower_char s"

definition toUpperCase :: "string \<Rightarrow> string" where
  "toUpperCase s = map upper_char s"

fun join :: "string \<Rightarrow> string list \<Rightarrow> string" where
  "join sep [] = []"
| "join sep [x] = x"
| "join sep (x # y # ys) = x @ sep @ join sep (y # ys)"

text \<open>JavaScript truthiness of a string that may be null or undefined.\<close>

fun truthy :: "string option \<Rightarrow> bool" where
  "truthy None = False"
| "truthy (Some s) = (s \<noteq> [])"

section \<open>Status mapper\<close>

text \<open>\<^verbatim>\<open>mapTwilioStatus\<close>: the switch of the status callback route, case by case.\<close>

definition mapTwilioStatus :: "string \<Rightarrow> call_status" where
  "mapTwilioStatus s =
     (if s = ''initiated'' \<or> s = ''queued'' then Queued
      else if s = ''ringing'' then Ringing
      else if s = ''answered'' \<or> s = ''in-progress'' then InProgress
      else if s = ''completed'' then Completed
      else if s = ''no-answer'' then NoAnswer
      else Failed)"

section \<open>Requests, responses and collaborators\<close>

datatype json =
    JNull
  | JBool bool
  | JNum rat
  | JStr string
  | JArr "json list"
  | JObj "(string \<times> json) list"

text \<open>A value thrown by a collaborator: an \<^verbatim>\<open>Error\<close> with its message, or anything else.\<close>

datatype thrown = ErrorObj string | OtherValue

record url =
  origin :: string
  pathname :: string
  searchParams :: "(string \<times> string) list"

text \<open>
  A request: its URL, the outcome of \<^verbatim>\<open>request.formData()\<close> (the fields as strings, or
  the rejection) and the outcome of \<^verbatim>\<open>request.json()\<close>.
\<close>

record request =
  url :: url
  formData :: "thrown + (string \<times> string) list"
  body :: "thrown + json"

text \<open>
  The voice script: \<^verbatim>\<open>Say\<close> with voice, language and text; \<^verbatim>\<open>Gather\<close> with its
  action URL, its language and the verbs nested in it (input, method, speech timeout and
  speech model are constants of the source); \<^verbatim>\<open>Redirect\<close> with its URL.
\<close>

datatype verb =
    Say string string string
  | Gather url string "verb list"
  | Redirect url

datatype response = JsonResponse nat json | XmlResponse nat "verb list"

record chat_request =
  model :: string
  messages :: "(string \<times> string) list"
  chat_temperature :: rat

text \<open>
  The completion client: \<^verbatim>\<open>getOpenAIClient()\<close> throws or gives a client, whose
  \<^verbatim>\<open>chat.completions.create\<close> throws or resolves; of the resolved value the routes read
  \<^verbatim>\<open>choices[0]?.message?.content\<close>, a string or nothing.
\<close>

type_synonym openai = "thrown + (chat_request \<Rightarrow> thrown + string option)"

record call_request =
  call_to :: string
  call_from :: string
  call_url :: url
  statusCallback :: url

type_synonym twilio = "thrown + (call_request \<Rightarrow> thrown + string)"

datatype event = ModelCall chat_request | ErrorLogged thrown

text \<open>
  What a handler leaves behind: its response (\<open>Inl\<close> when an exception escapes it), the
  store, and the completion calls and error logs it made, in order.
\<close>

record outcome =
  result :: "thrown + response"
  store_after :: store
  events :: "event list"

record env =
  OPENAI_MODEL :: "string option"
  TWILIO_CALLER_ID :: "string option"
  PUBLIC_BASE_URL :: "string option"

record payload =
  p_to :: string
  p_customerName :: "string option"
  p_company :: "string option"
  p_campaign :: "string option"
  p_agentName :: string
  p_persona :: string
  p_greeting :: string
  p_objective :: string
  p_guardrails :: string
  p_closingStrategy :: string
  p_voice :: string
  p_language :: string
  p_temperature :: rat

text \<open>
  What the routes import and the sources do not hold: the fixed text of
  \<^verbatim>\<open>fallbackLine()\<close>, the \<^verbatim>\<open>uuid()\<close> check of the validation library, whether a base
  URL parses, and the opening question the store derives for a new session.
\<close>

record deps =
  fallbackLine :: string
  isUuid :: "string \<Rightarrow> bool"
  urlParses :: "string \<Rightarrow> bool"
  openingQuestionFor :: "payload \<Rightarrow> string"

subsection \<open>URL parameters\<close>

text \<open>\<^verbatim>\<open>searchParams.get\<close>: the first value of the name.\<close>

definition params_get :: "(string \<times> string) list \<Rightarrow> string \<Rightarrow> string option" where
  "params_get ps k = map_of ps k"

text \<open>\<^verbatim>\<open>Object.fromEntries(searchParams.entries())\<close>: the last value of the name.\<close>

definition fromEntries :: "(string \<times> 'a) list \<Rightarrow> string \<Rightarrow> 'a option" where
  "fromEntries ps k = map_of (rev ps) k"

text \<open>
  \<^verbatim>\<open>searchParams.set\<close>: the first pair of the name takes the value and the others go; a
  new name is added at the end.
\<close>

fun params_set :: "string \<Rightarrow> string \<Rightarrow> (string \<times> string) list \<Rightarrow> (string \<times> string) list" where
  "params_set k v [] = [(k, v)]"
| "params_set k v (p # ps) =
     (if fst p = k then (k, v) # filter (\<lambda>q. fst q \<noteq> k) ps else p # params_set k v ps)"

definition buildActionUrl :: "url \<Rightarrow> string \<Rightarrow> url" where
  "buildActionUrl requestUrl sid =
     requestUrl\<lparr>searchParams := params_set ''session'' sid (searchParams requestUrl)\<rparr>"

definition buildGather :: "string \<Rightarrow> url \<Rightarrow> string \<Rightarrow> string \<Rightarrow> string \<Rightarrow> verb list" where
  "buildGather sid requestUrl lang vc prompt =
     [Gather (buildActionUrl requestUrl sid) lang [Say vc lang prompt],
      Redirect (buildActionUrl requestUrl sid)]"

definition json_error :: "nat \<Rightarrow> string \<Rightarrow> response" where
  "json_error code msg = JsonResponse code (JObj [(''error'', JStr msg)])"

definition ok_response :: response where
  "ok_response = JsonResponse 200 (JObj [(''ok'', JBool True)])"

definition model_name :: "env \<Rightarrow> string" where
  "model_name e = (case OPENAI_MODEL e of None \<Rightarrow> ''gpt-4o-mini'' | Some m \<Rightarrow> m)"

section \<open>Voice script route\<close>

definition voice_script_GET :: "deps \<Rightarrow> request \<Rightarrow> store \<Rightarrow> outcome" where
  "voice_script_GET d req st =
     (case fromEntries (searchParams (url req)) ''session'' of
        None \<Rightarrow> \<lparr>result = Inr (json_error 400 ''Session identifier missing''),
                  store_after = st, events = []\<rparr>
      | Some sid \<Rightarrow>
          if \<not> isUuid d sid
          then \<lparr>result = Inr (json_error 400 ''Session identifier missing''),
                store_after = st, events = []\<rparr>
          else
            (case getSession st sid of
               None \<Rightarrow> \<lparr>result = Inr (json_error 404 ''Unknown session''),
                         store_after = st, events = []\<rparr>
             | Some session \<Rightarrow>
                 let cfg = config session;
                     st1 = ensureGreetingCaptured st (sessionId session) (greeting cfg);
                     st2 = updateStatus st1 (sessionId session) InProgress
                 in \<lparr>result = Inr (XmlResponse 200
                        (Say (voice cfg) (language cfg) (greeting cfg)
                         # buildGather (sessionId session) (url req) (language cfg) (voice cfg)
                             (openingQuestion cfg))),
                     store_after = st2, events = []\<rparr>))"

definition reprompt :: string where
  "reprompt = ''I didn't quite catch that. Could you say that again?''"

text \<open>
  The reply of the turn: the trimmed content when the completion resolves with one,
  \<^verbatim>\<open>fallbackLine()\<close> when the content is null or undefined (\<^verbatim>\<open>??\<close> replaces nothing
  else) or when the client or the call throws.
\<close>

definition assistantReply :: "deps \<Rightarrow> openai \<Rightarrow> chat_request \<Rightarrow> string \<times> event list" where
  "assistantReply d ai rq =
     (case ai of
        Inl _ \<Rightarrow> (fallbackLine d, [])
      | Inr create \<Rightarrow>
          (case create rq of
             Inl _ \<Rightarrow> (fallbackLine d, [ModelCall rq])
           | Inr None \<Rightarrow> (fallbackLine d, [ModelCall rq])
           | Inr (Some c) \<Rightarrow> (trim c, [ModelCall rq])))"

text \<open>
  \<^verbatim>\<open>handleConversationTurn\<close> is an \<^verbatim>\<open>async\<close> function: it runs without
  interruption up to an \<^verbatim>\<open>await\<close>, and other requests may run before it resumes. It
  awaits twice: the form data, after it has looked the session up and before it writes
  anything, and the completion call, after it has appended the user turn and before it
  appends the assistant turn. What it keeps across the second \<^verbatim>\<open>await\<close> is the
  session it looked up (of which it reads the configuration) and the request it sent.
\<close>

record pending =
  pend_store :: store
  pend_session :: session
  pend_request :: chat_request

text \<open>
  Up to the completion call. The first store is the one at entry, in which the session is
  looked up; the second is the one found when the form data has arrived. The result is the
  finished outcome (unknown session, unreadable form, empty speech), or what is pending
  while the completion is awaited, with the store as the handler leaves it.
\<close>

definition turn_begin ::
    "deps \<Rightarrow> env \<Rightarrow> request \<Rightarrow> string \<Rightarrow> store \<Rightarrow> store \<Rightarrow> outcome + pending" where
  "turn_begin d e req sid st0 st =
     (case getSession st0 sid of
        None \<Rightarrow> Inl \<lparr>result = Inr (json_error 404 ''Unknown session''),
                      store_after = st0, events = []\<rparr>
      | Some session \<Rightarrow>
          (case formData req of
             Inl x \<Rightarrow> Inl \<lparr>result = Inl x, store_after = st, events = []\<rparr>
           | Inr fd \<Rightarrow>
               let cfg = config session;
                   speechResult = (case params_get fd ''SpeechResult'' of
                                     None \<Rightarrow> [] | Some sp \<Rightarrow> trim sp);
                   st1 = updateStatus st sid InProgress
               in if speechResult = []
                  then Inl \<lparr>result = Inr (XmlResponse 200
                               (Say (voice cfg) (language cfg) reprompt
                                # buildGather sid (url req) (language cfg) (voice cfg)
                                    (openingQuestion cfg))),
                            store_after = st1, events = []\<rparr>
                  else
                    let st2 = appendMessage st1 sid User speechResult
                    in Inr \<lparr>pend_store = st2, pend_session = session,
                            pend_request = \<lparr>model = model_name e,
                                             messages = getMessagesForModel st2 sid,
                                             chat_temperature = temperature cfg\<rparr>\<rparr>))"

text \<open>
  From the completion call on, in the store found when the handler resumes. (When the
  client cannot be obtained nothing is awaited, and that store is the one it left.)
\<close>

definition turn_resume ::
    "deps \<Rightarrow> openai \<Rightarrow> request \<Rightarrow> string \<Rightarrow> pending \<Rightarrow> store \<Rightarrow> outcome" where
  "turn_resume d ai req sid p st =
     (let cfg = config (pend_session p);
          (reply, evs) = assistantReply d ai (pend_request p);
          st3 = appendMessage st sid Assistant reply
      in \<lparr>result = Inr (XmlResponse 200
             [Gather (buildActionUrl (url req) sid) (language cfg)
                [Say (voice cfg) (language cfg) reply],
              Redirect (buildActionUrl (url req) sid)]),
          store_after = st3, events = evs\<rparr>)"

text \<open>The handler when no other request runs while it awaits.\<close>

definition handleConversationTurn ::
    "deps \<Rightarrow> env \<Rightarrow> openai \<Rightarrow> request \<Rightarrow> string \<Rightarrow> store \<Rightarrow> outcome" where
  "handleConversationTurn d e ai req sid st =
     (case turn_begin d e req sid st st of
        Inl out \<Rightarrow> out
      | Inr p \<Rightarrow> turn_resume d ai req sid p (pend_store p))"


definition voice_script_POST :: "deps \<Rightarrow> env \<Rightarrow> openai \<Rightarrow> request \<Rightarrow> store \<Rightarrow> outcome" where
  "voice_script_POST d e ai req st =
     (case params_get (searchParams (url req)) ''session'' of
        None \<Rightarrow> \<lparr>result = Inr (json_error 400 ''Missing session''),
                  store_after = st, events = []\<rparr>
      | Some sid \<Rightarrow>
          if sid = []
          then \<lparr>result = Inr (json_error 400 ''Missing session''),
                store_after = st, events = []\<rparr>
          else handleConversationTurn d e ai req sid st)"

section \<open>Provider status callback route\<close>

definition summaryPrompt :: string where
  "summaryPrompt = ''You are a call QA assistant. Summarize the conversation in three concise bullet points and propose up to three next steps.''"

definition transcriptText :: "turn list \<Rightarrow> string" where
  "transcriptText ts =
     join [CHR 0x0A]
       (map (\<lambda>t. toUpperCase (role_name (role t)) @ '': '' @ content t)
          (filter (\<lambda>t. role t \<noteq> System) ts))"

definition summaryRequest :: "env \<Rightarrow> session \<Rightarrow> chat_request" where
  "summaryRequest e session =
     \<lparr>model = model_name e,
      messages = [(''system'', summaryPrompt),
                  (''user'', transcriptText (transcript session))],
      chat_temperature = 2 / 5\<rparr>"

definition maybeSummarize :: "env \<Rightarrow> openai \<Rightarrow> string \<Rightarrow> store \<Rightarrow> store \<times> event list" where
  "maybeSummarize e ai sid st =
     (case getSession st sid of
        None \<Rightarrow> (st, [])
      | Some session \<Rightarrow>
          if length (transcript session) = 0 then (st, [])
          else
            (case ai of
               Inl x \<Rightarrow> (st, [ErrorLogged x])
             | Inr create \<Rightarrow>
                 (case create (summaryRequest e session) of
                    Inl x \<Rightarrow> (st, [ModelCall (summaryRequest e session), ErrorLogged x])
                  | Inr c \<Rightarrow>
                      (setSummary st sid
                         (case c of
                            None \<Rightarrow> ''Call completed. Summary unavailable.''
                          | Some text \<Rightarrow> trim text),
                       [ModelCall (summaryRequest e session)]))))"

text \<open>
  \<^verbatim>\<open>querySchema.safeParse\<close>: the \<^verbatim>\<open>session\<close> parameter is optional and, when given,
  must pass the \<^verbatim>\<open>uuid()\<close> check; the session is looked up only for a parameter that is
  given, valid and not the empty string.
\<close>

definition query_session :: "deps \<Rightarrow> request \<Rightarrow> string option" where
  "query_session d req =
     (case fromEntries (searchParams (url req)) ''session'' of
        None \<Rightarrow> None
      | Some sid \<Rightarrow> if isUuid d sid \<and> sid \<noteq> [] then Some sid else None)"

definition resolve_session :: "deps \<Rightarrow> request \<Rightarrow> string option \<Rightarrow> store \<Rightarrow> session option" where
  "resolve_session d req csid st =
     (let session = (case query_session d req of
                       None \<Rightarrow> None
                     | Some sid \<Rightarrow> getSession st sid)
      in if session = None \<and> truthy csid
         then lookupSessionByCallSid st (the csid)
         else session)"

definition twilio_status_POST :: "deps \<Rightarrow> env \<Rightarrow> openai \<Rightarrow> request \<Rightarrow> store \<Rightarrow> outcome" where
  "twilio_status_POST d e ai req st =
     (case formData req of
        Inl x \<Rightarrow> \<lparr>result = Inl x, store_after = st, events = []\<rparr>
      | Inr fd \<Rightarrow>
          let csid = params_get fd ''CallSid'';
              stat = map_option toLowerCase (params_get fd ''CallStatus'')
          in (case resolve_session d req csid st of
                None \<Rightarrow> \<lparr>result = Inr ok_response, store_after = st, events = []\<rparr>
              | Some session \<Rightarrow>
                  if \<not> truthy stat
                  then \<lparr>result = Inr ok_response, store_after = st, events = []\<rparr>
                  else
                    let st1 = updateStatus st (sessionId session) (mapTwilioStatus (the stat));
                        (st2, evs) = (if the stat = ''completed''
                                      then maybeSummarize e ai (sessionId session) st1
                                      else (st1, []))
                    in \<lparr>result = Inr ok_response, store_after = st2, events = evs\<rparr>))"

section \<open>Call creation route\<close>

text \<open>
  \<^verbatim>\<open>payloadSchema\<close>, field by field. A field is read from the parsed object (the last
  of equal keys); each check gives the value or nothing. Lengths count bytes.
\<close>

definition required_string :: "nat \<Rightarrow> json option \<Rightarrow> string option" where
  "required_string n v =
     (case v of Some (JStr s) \<Rightarrow> if n \<le> length s then Some s else None | _ \<Rightarrow> None)"

definition optional_string :: "json option \<Rightarrow> string option option" where
  "optional_string v =
     (case v of None \<Rightarrow> Some None | Some (JStr s) \<Rightarrow> Some (Some s) | _ \<Rightarrow> None)"

definition defaulted_string :: "json option \<Rightarrow> string option" where
  "defaulted_string v =
     (case v of None \<Rightarrow> Some [] | Some (JStr s) \<Rightarrow> Some s | _ \<Rightarrow> None)"

definition temperature_field :: "json option \<Rightarrow> rat option" where
  "temperature_field v =
     (case v of
        None \<Rightarrow> Some (3 / 5)
      | Some (JNum r) \<Rightarrow> if 0 \<le> r \<and> r \<le> 3 / 2 then Some r else None
      | _ \<Rightarrow> None)"

text \<open>The names of the fields that fail, in the order of the schema.\<close>

definition payload_issues :: "(string \<times> json) list \<Rightarrow> string list" where
  "payload_issues kv =
     (let f = fromEntries kv in
      (if required_string 8 (f ''to'') = None then [''to''] else []) @
      (if optional_string (f ''customerName'') = None then [''customerName''] else []) @
      (if optional_string (f ''company'') = None then [''company''] else []) @
      (if optional_string (f ''campaign'') = None then [''campaign''] else []) @
      (if required_string 2 (f ''agentName'') = None then [''agentName''] else []) @
      (if defaulted_string (f ''persona'') = None then [''persona''] else []) @
      (if required_string 6 (f ''greeting'') = None then [''greeting''] else []) @
      (if required_string 6 (f ''objective'') = None then [''objective''] else []) @
      (if defaulted_string (f ''guardrails'') = None then [''guardrails''] else []) @
      (if defaulted_string (f ''closingStrategy'') = None then [''closingStrategy''] else []) @
      (if required_string 2 (f ''voice'') = None then [''voice''] else []) @
      (if required_string 2 (f ''language'') = None then [''language''] else []) @
      (if temperature_field (f ''temperature'') = None then [''temperature''] else []))"

definition payloadSchema_parse :: "json \<Rightarrow> string list + payload" where
  "payloadSchema_parse j =
     (case j of
        JObj kv \<Rightarrow>
          if payload_issues kv \<noteq> [] then Inl (payload_issues kv)
          else
            let f = fromEntries kv in
            Inr \<lparr>p_to = the (required_string 8 (f ''to'')),
                 p_customerName = the (optional_string (f ''customerName'')),
                 p_company = the (optional_string (f ''company'')),
                 p_campaign = the (optional_string (f ''campaign'')),
                 p_agentName = the (required_string 2 (f ''agentName'')),
                 p_persona = the (defaulted_string (f ''persona'')),
                 p_greeting = the (required_string 6 (f ''greeting'')),
                 p_objective = the (required_string 6 (f ''objective'')),
                 p_guardrails = the (defaulted_string (f ''guardrails'')),
                 p_closingStrategy = the (defaulted_string (f ''closingStrategy'')),
                 p_voice = the (required_string 2 (f ''voice'')),
                 p_language = the (required_string 2 (f ''language'')),
                 p_temperature = the (temperature_field (f ''temperature''))\<rparr>
      | _ \<Rightarrow> Inl [[]])"

definition config_of :: "deps \<Rightarrow> payload \<Rightarrow> config" where
  "config_of d p =
     \<lparr>agentName = p_agentName p, persona = p_persona p, greeting = p_greeting p,
      objective = p_objective p, guardrails = p_guardrails p,
      closingStrategy = p_closingStrategy p, voice = p_voice p, language = p_language p,
      temperature = p_temperature p, targetNumber = p_to p,
      customerName = p_customerName p, company = p_company p, campaign = p_campaign p,
      openingQuestion = openingQuestionFor d p\<rparr>"

text \<open>The \<^verbatim>\<open>catch\<close> of the placement: the message that is recorded and returned.\<close>

definition failure_message :: "thrown \<Rightarrow> string" where
  "failure_message x = (case x of ErrorObj m \<Rightarrow> m | OtherValue \<Rightarrow> ''Failed to initiate call'')"

definition placement_failed :: "store \<Rightarrow> string \<Rightarrow> thrown \<Rightarrow> outcome" where
  "placement_failed st sid x =
     \<lparr>result = Inr (json_error 502 (failure_message x)),
      store_after = setError st sid (failure_message x), events = []\<rparr>"

text \<open>
  The first half of the \<^verbatim>\<open>try\<close> block, which touches no session: the client, the
  two webhook URLs and \<^verbatim>\<open>client.calls.create\<close>. It gives the call identifier or the
  value thrown on the way.
\<close>

definition placement :: "deps \<Rightarrow> env \<Rightarrow> twilio \<Rightarrow> string \<Rightarrow> payload \<Rightarrow> thrown + string" where
  "placement d e tw uuid parsed =
     (let callerId = the (TWILIO_CALLER_ID e);
          publicUrl = the (PUBLIC_BASE_URL e)
      in (case tw of
            Inl x \<Rightarrow> Inl x
          | Inr create \<Rightarrow>
              if \<not> urlParses d publicUrl then Inl (ErrorObj ''Invalid URL'')
              else
                let voiceUrl = \<lparr>origin = publicUrl, pathname = ''/api/voice-script'',
                                searchParams = params_set ''session'' uuid []\<rparr>;
                    statusUrl = \<lparr>origin = publicUrl, pathname = ''/api/twilio-status'',
                                 searchParams = params_set ''session'' uuid []\<rparr>
                in create \<lparr>call_to = p_to parsed, call_from = callerId,
                           call_url = voiceUrl, statusCallback = statusUrl\<rparr>))"

definition calls_POST :: "deps \<Rightarrow> env \<Rightarrow> twilio \<Rightarrow> string \<Rightarrow> request \<Rightarrow> store \<Rightarrow> outcome" where
  "calls_POST d e tw uuid req st =
     (if \<not> truthy (TWILIO_CALLER_ID e)
      then \<lparr>result = Inr (json_error 500
              ''TWILIO_CALLER_ID is not configured. Configure it to launch outbound calls.''),
            store_after = st, events = []\<rparr>
      else if \<not> truthy (PUBLIC_BASE_URL e)
      then \<lparr>result = Inr (json_error 500
              ''PUBLIC_BASE_URL is missing. Set it to the publicly reachable domain handling Twilio webhooks.''),
            store_after = st, events = []\<rparr>
      else
        (case body req of
           Inl _ \<Rightarrow> \<lparr>result = Inr (json_error 400 ''Unexpected payload error''),
                     store_after = st, events = []\<rparr>
         | Inr j \<Rightarrow>
             (case payloadSchema_parse j of
                Inl issues \<Rightarrow>
                  \<lparr>result = Inr (JsonResponse 422
                      (JObj [(''error'', JStr ''Invalid payload''),
                             (''issues'', JArr (map JStr issues))])),
                   store_after = st, events = []\<rparr>
              | Inr parsed \<Rightarrow>
                  let st1 = createSession st uuid (config_of d parsed)
                  in (case placement d e tw uuid parsed of
                        Inl x \<Rightarrow> placement_failed st1 uuid x
                      | Inr sid \<Rightarrow>
                          let st2 = setCallSid st1 uuid sid;
                              st3 = updateStatus st2 uuid Queued
                          in \<lparr>result = Inr (JsonResponse 201
                                (JObj [(''sessionId'', JStr uuid),
                                       (''callSid'', JStr sid),
                                       (''status'', JStr ''queued'')])),
                              store_after = st3, events = []\<rparr>))))"

section \<open>Example data\<close>

text \<open>Concrete sessions, requests and collaborators on which the results below are run.\<close>

definition example_id :: string where
  "example_id = ''123e4567-e89b-42d3-a456-426614174000''"

definition example_config :: config where
  "example_config =
     \<lparr>agentName = ''Aurora'', persona = [], greeting = ''Hi, this is Aurora'',
      objective = ''Book a demo'', guardrails = [], closingStrategy = [],
      voice = ''alice'', language = ''en-US'', temperature = 3 / 5,
      targetNumber = ''+15550100'', customerName = None, company = None, campaign = None,
      openingQuestion = ''Is now a good time?''\<rparr>"

definition example_turn :: "nat \<Rightarrow> role \<Rightarrow> string \<Rightarrow> turn" where
  "example_turn n r c = \<lparr>turn_id = n, role = r, content = c, timestamp = n\<rparr>"

definition example_session :: "call_status \<Rightarrow> turn list \<Rightarrow> string option \<Rightarrow> session" where
  "example_session stat ts sm =
     \<lparr>sessionId = example_id, callSid = Some ''CA1'', config = example_config, status = stat,
      transcript = ts, summary = sm, lastError = None, createdAt = 0, updatedAt = 0\<rparr>"

definition example_store :: "call_status \<Rightarrow> turn list \<Rightarrow> string option \<Rightarrow> store" where
  "example_store stat ts sm = \<lparr>sessions = [example_session stat ts sm], clock = 10\<rparr>"

definition example_deps :: deps where
  "example_deps =
     \<lparr>fallbackLine = ''Sorry, could you repeat that?'',
      isUuid = (\<lambda>s. length s = 36),
      urlParses = (\<lambda>s. s \<noteq> []),
      openingQuestionFor = (\<lambda>p. ''Is now a good time?'')\<rparr>"

definition example_env :: env where
  "example_env =
     \<lparr>OPENAI_MODEL = None, TWILIO_CALLER_ID = Some ''+15550199'',
      PUBLIC_BASE_URL = Some ''https://agent.example''\<rparr>"

text \<open>A completion client that resolves with the given content, and one whose call throws.\<close>

definition replying :: "string option \<Rightarrow> openai" where
  "replying c = Inr (\<lambda>rq. Inr c)"

definition throwing :: "thrown \<Rightarrow> openai" where
  "throwing x = Inr (\<lambda>rq. Inl x)"

definition example_url :: "string \<Rightarrow> url" where
  "example_url p =
     \<lparr>origin = ''https://agent.example'', pathname = p,
      searchParams = [(''session'', example_id)]\<rparr>"

text \<open>
  Speech that is white space only: a space, a no-break space (U+00A0), an ideographic
  space (U+3000) and a tab.
\<close>

definition blank_speech :: string where
  "blank_speech = [CHR 0x20, CHR 0xC2, CHR 0xA0, CHR 0xE3, CHR 0x80, CHR 0x80, CHR 0x09]"

text \<open>A speech callback carrying the given \<^verbatim>\<open>SpeechResult\<close>.\<close>

definition speech_request :: "string \<Rightarrow> request" where
  "speech_request sp =
     \<lparr>url = example_url ''/api/voice-script'',
      formData = Inr [(''CallSid'', ''CA1''), (''SpeechResult'', sp)],
      body = Inl OtherValue\<rparr>"

text \<open>A status callback carrying the given form fields.\<close>

definition status_request :: "(string \<times> string) list \<Rightarrow> request" where
  "status_request fd =
     \<lparr>url = example_url ''/api/twilio-status'', formData = Inr fd, body = Inl OtherValue\<rparr>"

definition example_body :: json where
  "example_body =
     JObj [(''to'', JStr ''+15550100''), (''agentName'', JStr ''Aurora''),
           (''greeting'', JStr ''Hi, this is Aurora''), (''objective'', JStr ''Book a demo''),
           (''voice'', JStr ''alice''), (''language'', JStr ''en-US'')]"

definition example_payload :: payload where
  "example_payload =
     \<lparr>p_to = ''+15550100'', p_customerName = None, p_company = None, p_campaign = None,
      p_agentName = ''Aurora'', p_persona = [], p_greeting = ''Hi, this is Aurora'',
      p_objective = ''Book a demo'', p_guardrails = [], p_closingStrategy = [],
      p_voice = ''alice'', p_language = ''en-US'', p_temperature = 3 / 5\<rparr>"

text \<open>A placement client whose call throws the given value.\<close>

definition refusing :: "thrown \<Rightarrow> twilio" where
  "refusing x = Inr (\<lambda>rq. Inl x)"

definition call_request_of :: "json \<Rightarrow> request" where
  "call_request_of j =
     \<lparr>url = \<lparr>origin = ''https://agent.example'', pathname = ''/api/calls'', searchParams = []\<rparr>,
      formData = Inl OtherValue, body = Inr j\<rparr>"

section \<open>Shapes of transcripts and stores\<close>

text \<open>No user turn is immediately followed by another user turn.\<close>

fun no_double_user :: "turn list \<Rightarrow> bool" where
  "no_double_user (a # b # r) = (\<not> (role a = User \<and> role b = User) \<and> no_double_user (b # r))"
| "no_double_user _ = True"

text \<open>
  A transcript between two speech callbacks: no two user turns in a row, and the last
  turn, if there is one, is not a user turn waiting for its reply.
\<close>

definition coherent :: "turn list \<Rightarrow> bool" where
  "coherent ts = (no_double_user ts \<and> (ts = [] \<or> role (last ts) \<noteq> User))"

text \<open>The table is keyed by session identifier: no identifier occurs twice.\<close>

definition wf_store :: "store \<Rightarrow> bool" where
  "wf_store st = distinct (map sessionId (sessions st))"

text \<open>
  The summarizer's completion call fails: the client cannot be obtained, or its call
  throws for the request built from the session.
\<close>

definition summarize_fails :: "env \<Rightarrow> openai \<Rightarrow> session \<Rightarrow> bool" where
  "summarize_fails e ai session =
     (case ai of Inl _ \<Rightarrow> True | Inr create \<Rightarrow> isl (create (summaryRequest e session)))"

text \<open>
  The shape every stored session has between two requests that do not overlap, and the
  shape of the store.
\<close>

definition session_ok :: "session \<Rightarrow> bool" where
  "session_ok s = (one_greeting (transcript s) \<and> coherent (transcript s))"

definition store_ok :: "store \<Rightarrow> bool" where
  "store_ok st = (wf_store st \<and> list_all session_ok (sessions st))"

text \<open>What an observer reads of one session.\<close>

definition transcriptOf :: "store \<Rightarrow> string \<Rightarrow> turn list" where
  "transcriptOf st sid = (case getSession st sid of None \<Rightarrow> [] | Some s \<Rightarrow> transcript s)"

definition statusOf :: "store \<Rightarrow> string \<Rightarrow> call_status option" where
  "statusOf st sid = map_option status (getSession st sid)"

definition summaryOf :: "store \<Rightarrow> string \<Rightarrow> string option" where
  "summaryOf st sid = (case getSession st sid of None \<Rightarrow> None | Some s \<Rightarrow> summary s)"

section \<open>Facts about the store\<close>

lemma find_modify:
  assumes "\<And>s. sessionId (f s) = sessionId s"
  shows "find (\<lambda>s. sessionId s = k) (modify sid f ss) =
         (if k = sid then map_option f (find (\<lambda>s. sessionId s = sid) ss)
          else find (\<lambda>s. sessionId s = k) ss)"
  using assms by (induction ss) auto

lemma getSession_mutate:
  assumes "\<And>s. sessionId (f s) = sessionId s"
  shows "getSession (mutate st sid f) k =
         (if k = sid then map_option (\<lambda>s. (f s)\<lparr>updatedAt := clock st\<rparr>) (getSession st sid)
          else getSession st k)"
proof (cases "getSession st sid")
  case None
  then show ?thesis by (simp add: mutate_def)
next
  case (Some s)
  have "\<And>s. sessionId ((f s)\<lparr>updatedAt := clock st\<rparr>) = sessionId s"
    using assms by simp
  from find_modify[of "\<lambda>s. (f s)\<lparr>updatedAt := clock st\<rparr>", OF this]
  show ?thesis using Some by (simp add: mutate_def getSession_def)
qed

subsection \<open>The state machine\<close>

lemma reachable_rank:
  "reachable a b \<longleftrightarrow> rank a < rank b \<or> (a = InProgress \<and> b = InProgress)"
  by (cases a; cases b; simp add: reachable_def eval_nat_numeral)

lemma reach_within_path:
  "reach_within n a b \<Longrightarrow> (\<lambda>x y. y \<in> set (successors x))\<^sup>+\<^sup>+ a b"
proof (induction n arbitrary: a)
  case 0
  then show ?case by simp
next
  case (Suc n)
  then show ?case
    by (auto simp: list_ex_iff intro: tranclp.r_into_trancl tranclp_into_tranclp2)
qed

lemma path_rank:
  "(\<lambda>x y. y \<in> set (successors x))\<^sup>+\<^sup>+ a b \<Longrightarrow>
     rank a < rank b \<or> (a = InProgress \<and> b = InProgress)"
proof (induction rule: tranclp_induct)
  case (base y)
  then show ?case by (cases a) auto
next
  case (step y z)
  then show ?case by (cases y) auto
qed

text \<open>The bounded search finds exactly the statuses that a path of transitions reaches.\<close>

lemma reachable_iff_path:
  "reachable a b \<longleftrightarrow> (\<lambda>x y. y \<in> set (successors x))\<^sup>+\<^sup>+ a b"
  using reach_within_path path_rank reachable_rank unfolding reachable_def by blast

lemma forward_refl: "forward a a"
  by (simp add: forward_def)

lemma forward_trans: "forward a b \<Longrightarrow> forward b c \<Longrightarrow> forward a c"
  by (auto simp: forward_def split: if_splits)

lemma reachable_forward: "reachable a b \<Longrightarrow> forward a b"
  by (cases a; cases b; simp add: reachable_rank forward_def)

lemma updateStatus_step:
  assumes "getSession st sid = Some s"
  shows "\<exists>s'. getSession (updateStatus st sid t) sid = Some s' \<and> forward (status s) (status s')"
  using assms
  by (auto simp: updateStatus_def getSession_mutate forward_refl reachable_forward)

lemma trajectory_hd:
  "getSession st sid = Some s \<Longrightarrow>
     \<exists>r. trajectory st sid ts = status s # r \<and> length r = length ts"
proof (induction ts arbitrary: st s)
  case Nil
  then show ?case by simp
next
  case (Cons t ts)
  from updateStatus_step[OF Cons.prems, of t] obtain s' where
    "getSession (updateStatus st sid t) sid = Some s'" by blast
  from Cons.IH[OF this] Cons.prems show ?case by auto
qed

lemma trajectory_forward:
  "getSession st sid = Some s \<Longrightarrow>
     sorted_wrt forward (trajectory st sid ts) \<and>
     (\<forall>y \<in> set (trajectory st sid ts). forward (status s) y)"
proof (induction ts arbitrary: st s)
  case Nil
  then show ?case by (simp add: forward_refl)
next
  case (Cons t ts)
  from updateStatus_step[OF Cons.prems, of t] obtain s' where
    s': "getSession (updateStatus st sid t) sid = Some s'" and
    fw: "forward (status s) (status s')" by blast
  from Cons.IH[OF s'] have
    srt: "sorted_wrt forward (trajectory (updateStatus st sid t) sid ts)" and
    all: "\<forall>y \<in> set (trajectory (updateStatus st sid t) sid ts). forward (status s') y"
    by blast+
  from all fw have "\<forall>y \<in> set (trajectory (updateStatus st sid t) sid ts). forward (status s) y"
    using forward_trans by blast
  with srt Cons.prems show ?case by (simp add: forward_refl)
qed

section \<open>Status state machine: results\<close>

text \<open>
  Claim C2. For every sequence of \<^verbatim>\<open>updateStatus\<close> calls on a session, the statuses
  observed before the first and after each call never decrease in the ordering
  draft < queued < ringing < in-progress < terminal, the trajectory has one reading per call
  plus the initial one, a session that starts in a terminal status (completed, no-answer,
  failed) shows that same status at every reading, and an update whose target is not
  reachable from the current status leaves the whole store as it was. Since \<open>forward\<close>
  also pins a terminal status, the sortedness covers every pair of readings: once a
  terminal status is read, every later reading is equal to it.
\<close>

theorem updateStatus_monotone:
  assumes "getSession st sid = Some s"
  shows "length (trajectory st sid ts) = Suc (length ts) \<and>
         sorted_wrt forward (trajectory st sid ts) \<and>
         (terminal (status s) \<longrightarrow>
            trajectory st sid ts = replicate (Suc (length ts)) (status s)) \<and>
         (\<not> reachable (status s) t \<longrightarrow> updateStatus st sid t = st)"
proof -
  from trajectory_hd[OF assms, of ts] have len: "length (trajectory st sid ts) = Suc (length ts)"
    by auto
  from trajectory_forward[OF assms, of ts] have
    srt: "sorted_wrt forward (trajectory st sid ts)" and
    all: "\<forall>y \<in> set (trajectory st sid ts). forward (status s) y" by blast+
  have fixed: "trajectory st sid ts = replicate (Suc (length ts)) (status s)"
    if "terminal (status s)"
  proof -
    from all that have "\<forall>y \<in> set (trajectory st sid ts). y = status s"
      by (simp add: forward_def)
    then have "replicate (length (trajectory st sid ts)) (status s) = trajectory st sid ts"
      by (rule replicate_length_same)
    with len show ?thesis by simp
  qed
  have disc: "updateStatus st sid t = st" if "\<not> reachable (status s) t"
    using that assms by (simp add: updateStatus_def)
  from len srt fixed disc show ?thesis by blast
qed

theorem updateStatus_monotone_witness:
  "getSession (example_store Queued [] None) example_id = Some (example_session Queued [] None) \<and>
   trajectory (example_store Queued [] None) example_id [Ringing, Queued, Completed, Ringing, Failed]
     = [Queued, Ringing, Ringing, Completed, Completed, Completed] \<and>
   sorted_wrt forward (trajectory (example_store Queued [] None) example_id
     [Ringing, Queued, Completed, Ringing, Failed]) \<and>
   \<not> reachable Queued Draft \<and>
   updateStatus (example_store Queued [] None) example_id Draft = example_store Queued [] None"
proof -
  have h: "getSession (example_store Queued [] None) example_id
             = Some (example_session Queued [] None)"
    by (simp add: getSession_def example_store_def example_session_def)
  have t: "trajectory (example_store Queued [] None) example_id
             [Ringing, Queued, Completed, Ringing, Failed]
           = [Queued, Ringing, Ringing, Completed, Completed, Completed]"
    by code_simp
  have r: "\<not> reachable Queued Draft" by (simp add: reachable_rank)
  have q: "status (example_session Queued [] None) = Queued"
    by (simp add: example_session_def)
  from updateStatus_monotone[OF h, of "[Ringing, Queued, Completed, Ringing, Failed]" Draft,
      unfolded q] h t r
  show ?thesis by blast
qed

section \<open>Status mapper: results\<close>

text \<open>
  Claim C3. The status mapper is a function of the provider's status string alone (it
  neither reads nor returns the store) and is defined on every string: initiated and queued
  map to queued, ringing to ringing, answered and in-progress to in-progress, completed to
  completed, no-answer to no-answer; busy, failed, canceled and every string outside the
  seven mapped ones map to failed.
\<close>

theorem mapTwilioStatus_table:
  "mapTwilioStatus ''initiated'' = Queued \<and> mapTwilioStatus ''queued'' = Queued \<and>
   mapTwilioStatus ''ringing'' = Ringing \<and>
   mapTwilioStatus ''answered'' = InProgress \<and> mapTwilioStatus ''in-progress'' = InProgress \<and>
   mapTwilioStatus ''completed'' = Completed \<and>
   mapTwilioStatus ''no-answer'' = NoAnswer \<and>
   mapTwilioStatus ''busy'' = Failed \<and> mapTwilioStatus ''failed'' = Failed \<and>
   mapTwilioStatus ''canceled'' = Failed \<and>
   (s \<notin> set [''initiated'', ''queued'', ''ringing'', ''answered'', ''in-progress'',
              ''completed'', ''no-answer''] \<longrightarrow> mapTwilioStatus s = Failed)"
  by (simp add: mapTwilioStatus_def)

theorem mapTwilioStatus_table_witness:
  "''paused'' \<notin> set [''initiated'', ''queued'', ''ringing'', ''answered'', ''in-progress'',
              ''completed'', ''no-answer''] \<and> mapTwilioStatus ''paused'' = Failed"
  using mapTwilioStatus_table[of "''paused''"] by simp

section \<open>Speech turns: results\<close>

text \<open>
  \<^verbatim>\<open>trim\<close> at work: a no-break space alone is trimmed to nothing; a byte order mark in
  front and a line separator and a line feed behind are removed; the bytes of a letter
  (U+00E0, whose second byte is that of the no-break space) are kept.
\<close>

lemma trim_examples:
  "trim [CHR 0xC2, CHR 0xA0] = []"
  "trim ([CHR 0xEF, CHR 0xBB, CHR 0xBF] @ ''a b'' @ [CHR 0xE2, CHR 0x80, CHR 0xA8, CHR 0x0A]) = ''a b''"
  "trim [CHR 0xC3, CHR 0xA0] = [CHR 0xC3, CHR 0xA0]"
  by code_simp+

lemma map_modify_same:
  assumes "\<And>s. g (f s) = g s"
  shows "map g (modify sid f ss) = map g ss"
  using assms by (induction ss) auto

lemma mutate_keeps:
  assumes "\<And>s. g (f s) = g s" and "\<And>s v. g (s\<lparr>updatedAt := v\<rparr>) = g s"
  shows "map g (sessions (mutate st sid f)) = map g (sessions st)"
  using assms by (simp add: mutate_def map_modify_same split: option.splits)

lemma getSession_updateStatus:
  "getSession (updateStatus st sid t) k =
     map_option (\<lambda>s. if k = sid \<and> reachable (status s) t
                      then s\<lparr>status := t, updatedAt := clock st\<rparr> else s)
       (getSession st k)"
  by (cases "getSession st sid"; cases "getSession st k")
     (auto simp: updateStatus_def getSession_mutate)

lemma updateStatus_keeps_transcripts:
  "map transcript (sessions (updateStatus st sid t)) = map transcript (sessions st)"
  by (simp add: updateStatus_def mutate_keeps split: option.splits)

lemma transcriptOf_updateStatus:
  "transcriptOf (updateStatus st sid t) k = transcriptOf st k"
  by (cases "getSession st k") (simp_all add: transcriptOf_def getSession_updateStatus)



lemma no_double_user_append2:
  assumes "no_double_user ts" and "ts = [] \<or> role (last ts) \<noteq> User"
    and "role a \<noteq> User"
  shows "no_double_user (ts @ [u, a])"
  using assms
  by (induction ts rule: no_double_user.induct) (auto split: if_splits)

lemma coherent_append2:
  "coherent ts \<Longrightarrow> role a \<noteq> User \<Longrightarrow> coherent (ts @ [u, a])"
  by (simp add: coherent_def no_double_user_append2)



lemma turn_resume_result:
  "\<exists>verbs. result (turn_resume d ai req sid p st) = Inr (XmlResponse 200 verbs)"
  by (simp add: turn_resume_def Let_def split: prod.splits)




text \<open>
  Claim C5. For a known session and a \<^verbatim>\<open>SpeechResult\<close> that is absent, empty or
  white space only, \<^verbatim>\<open>handleConversationTurn\<close> finishes before the completion call:
  nothing is pending, every transcript of the store is as it was when the form data
  arrived, no completion call is made (the outcome does not depend on the completion
  client at all), and the answer is the fixed re-prompt followed by a gather that offers
  the session's opening question again.
\<close>

theorem empty_speech_reprompts:
  assumes "getSession st0 sid = Some s" and "formData req = Inr fd"
    and "(case params_get fd ''SpeechResult'' of None \<Rightarrow> [] | Some sp \<Rightarrow> trim sp) = []"
  shows "turn_begin d e req sid st0 st =
           Inl \<lparr>result = Inr (XmlResponse 200
                  [Say (voice (config s)) (language (config s))
                     ''I didn't quite catch that. Could you say that again?'',
                   Gather (buildActionUrl (url req) sid) (language (config s))
                     [Say (voice (config s)) (language (config s)) (openingQuestion (config s))],
                   Redirect (buildActionUrl (url req) sid)]),
                store_after = updateStatus st sid InProgress, events = []\<rparr> \<and>
         map transcript (sessions (updateStatus st sid InProgress)) = map transcript (sessions st) \<and>
         map transcript (sessions (store_after (handleConversationTurn d e ai req sid st0)))
           = map transcript (sessions st0) \<and>
         events (handleConversationTurn d e ai req sid st0) = [] \<and>
         handleConversationTurn d e ai req sid st0 = handleConversationTurn d e ai' req sid st0 \<and>
         result (handleConversationTurn d e ai req sid st0) =
           Inr (XmlResponse 200
             [Say (voice (config s)) (language (config s))
                ''I didn't quite catch that. Could you say that again?'',
              Gather (buildActionUrl (url req) sid) (language (config s))
                [Say (voice (config s)) (language (config s)) (openingQuestion (config s))],
              Redirect (buildActionUrl (url req) sid)])"
proof -
  have b: "turn_begin d e req sid st0 st' =
           Inl \<lparr>result = Inr (XmlResponse 200
                  [Say (voice (config s)) (language (config s))
                     ''I didn't quite catch that. Could you say that again?'',
                   Gather (buildActionUrl (url req) sid) (language (config s))
                     [Say (voice (config s)) (language (config s)) (openingQuestion (config s))],
                   Redirect (buildActionUrl (url req) sid)]),
                store_after = updateStatus st' sid InProgress, events = []\<rparr>" for st'
    using assms by (simp add: turn_begin_def Let_def buildGather_def reprompt_def)
  show ?thesis
    by (simp add: handleConversationTurn_def b updateStatus_keeps_transcripts)
qed

theorem empty_speech_reprompts_witness:
  "getSession (example_store InProgress [example_turn 1 System ''Hi, this is Aurora''] None) example_id
     = Some (example_session InProgress [example_turn 1 System ''Hi, this is Aurora''] None) \<and>
   formData (speech_request blank_speech)
     = Inr [(''CallSid'', ''CA1''), (''SpeechResult'', blank_speech)] \<and>
   (case params_get [(''CallSid'', ''CA1''), (''SpeechResult'', blank_speech)] ''SpeechResult'' of
      None \<Rightarrow> [] | Some sp \<Rightarrow> trim sp) = [] \<and>
   events (handleConversationTurn example_deps example_env (replying (Some ''unused''))
     (speech_request blank_speech) example_id
     (example_store InProgress [example_turn 1 System ''Hi, this is Aurora''] None)) = [] \<and>
   map transcript (sessions (store_after (handleConversationTurn example_deps example_env
     (replying (Some ''unused'')) (speech_request blank_speech) example_id
     (example_store InProgress [example_turn 1 System ''Hi, this is Aurora''] None))))
     = [[example_turn 1 System ''Hi, this is Aurora'']]"
proof -
  let ?st = "example_store InProgress [example_turn 1 System ''Hi, this is Aurora''] None"
  have h1: "getSession ?st example_id
            = Some (example_session InProgress [example_turn 1 System ''Hi, this is Aurora''] None)"
    by (simp add: getSession_def example_store_def example_session_def)
  have h2: "formData (speech_request blank_speech)
            = Inr [(''CallSid'', ''CA1''), (''SpeechResult'', blank_speech)]"
    by (simp add: speech_request_def)
  have h3: "(case params_get [(''CallSid'', ''CA1''), (''SpeechResult'', blank_speech)]
               ''SpeechResult'' of None \<Rightarrow> [] | Some sp \<Rightarrow> trim sp) = []"
    by code_simp
  have m: "map transcript (sessions ?st) = [[example_turn 1 System ''Hi, this is Aurora'']]"
    by (simp add: example_store_def example_session_def)
  from empty_speech_reprompts[OF h1 h2 h3, of example_deps example_env ?st
      "replying (Some ''unused'')" "replying (Some ''unused'')", unfolded m] h1 h2 h3
  show ?thesis by blast
qed

text \<open>
  The reply text is the fallback line when the client cannot be obtained, when the call
  throws and when the content is null or undefined; a content that is a string is trimmed
  and used as it is.
\<close>

lemma assistantReply_fallback:
  assumes "ai = Inl x \<or> (\<exists>create. ai = Inr create \<and> (create rq = Inl x \<or> create rq = Inr None))"
  shows "fst (assistantReply d ai rq) = fallbackLine d"
  using assms by (auto simp: assistantReply_def)

lemma assistantReply_blank:
  assumes "ai = Inr create" and "create rq = Inr (Some c)"
  shows "fst (assistantReply d ai rq) = trim c"
  using assms by (simp add: assistantReply_def)

text \<open>
  Claim C6, run on the code. The completion resolves with the content \<open>''  ''\<close> (two
  spaces). The handler appends the user turn and then an assistant turn whose content is
  the empty string, not the fallback line: \<^verbatim>\<open>??\<close> replaces only null and undefined,
  and the trimmed content is the empty string, which it keeps.
\<close>

theorem blank_reply_not_replaced:
  "transcriptOf (store_after (voice_script_POST example_deps example_env (replying (Some ''  ''))
      (speech_request ''I am interested'') (example_store InProgress [] None))) example_id
     = [example_turn 11 User ''I am interested'', example_turn 12 Assistant []] \<and>
   fallbackLine example_deps = ''Sorry, could you repeat that?''"
  by code_simp

section \<open>Call creation: results\<close>

lemma find_modify_const:
  assumes "sessionId fresh = sid" and "find (\<lambda>s. sessionId s = sid) ss = Some old"
  shows "find (\<lambda>s. sessionId s = sid) (modify sid (\<lambda>_. fresh) ss) = Some fresh"
  using assms by (induction ss) (auto split: if_splits)

lemma find_append_fresh:
  assumes "sessionId fresh = sid" and "find (\<lambda>s. sessionId s = sid) ss = None"
  shows "find (\<lambda>s. sessionId s = sid) (ss @ [fresh]) = Some fresh"
  using assms by (induction ss) (auto split: if_splits)

lemma getSession_createSession:
  "getSession (createSession st sid cfg) sid =
     Some \<lparr>sessionId = sid, callSid = None, config = cfg, status = Draft,
           transcript = [], summary = None, lastError = None,
           createdAt = clock st, updatedAt = clock st\<rparr>"
proof (cases "getSession st sid")
  case None
  then show ?thesis
    by (simp add: createSession_def getSession_def find_append_fresh)
next
  case (Some old)
  then show ?thesis
    by (simp add: createSession_def getSession_def find_modify_const)
qed

lemma getSession_setError:
  "getSession st sid = Some s \<Longrightarrow>
     getSession (setError st sid m) sid = Some (s\<lparr>lastError := Some m, updatedAt := clock st\<rparr>)"
  by (simp add: setError_def getSession_mutate)

text \<open>
  Claim C7. When both environment settings are present, the payload passes validation (so
  the session has been created) and the placement then fails, whether the client cannot be
  obtained, the base URL does not parse or \<^verbatim>\<open>client.calls.create\<close> throws, the
  session stored under the new identifier has the failure's message as \<^verbatim>\<open>lastError\<close>
  (the message of an \<^verbatim>\<open>Error\<close>, else the fixed text), its status is still draft, it
  has no call identifier, and the route answers 502 with that message.
\<close>

theorem placement_failure_recorded:
  assumes "truthy (TWILIO_CALLER_ID e)" and "truthy (PUBLIC_BASE_URL e)"
    and "body req = Inr j" and "payloadSchema_parse j = Inr parsed"
    and "placement d e tw uuid parsed = Inl x"
  shows "result (calls_POST d e tw uuid req st)
           = Inr (JsonResponse 502 (JObj [(''error'', JStr (failure_message x))])) \<and>
         (\<exists>s'. getSession (store_after (calls_POST d e tw uuid req st)) uuid = Some s' \<and>
               lastError s' = Some (failure_message x) \<and> status s' = Draft \<and>
               callSid s' = None)"
proof -
  have out: "calls_POST d e tw uuid req st
             = placement_failed (createSession st uuid (config_of d parsed)) uuid x"
    using assms by (simp add: calls_POST_def Let_def)
  from getSession_setError[OF getSession_createSession, of st uuid "config_of d parsed"
      "failure_message x"]
  show ?thesis
    by (simp add: out placement_failed_def json_error_def)
qed

theorem placement_failure_recorded_witness:
  "truthy (TWILIO_CALLER_ID example_env) \<and> truthy (PUBLIC_BASE_URL example_env) \<and>
   body (call_request_of example_body) = Inr example_body \<and>
   payloadSchema_parse example_body = Inr example_payload \<and>
   placement example_deps example_env (refusing (ErrorObj ''Authenticate'')) example_id
     example_payload = Inl (ErrorObj ''Authenticate'') \<and>
   result (calls_POST example_deps example_env (refusing (ErrorObj ''Authenticate''))
      example_id (call_request_of example_body) \<lparr>sessions = [], clock = 0\<rparr>)
     = Inr (JsonResponse 502 (JObj [(''error'', JStr ''Authenticate'')])) \<and>
   (\<exists>s'. getSession (store_after (calls_POST example_deps example_env
              (refusing (ErrorObj ''Authenticate'')) example_id
              (call_request_of example_body) \<lparr>sessions = [], clock = 0\<rparr>)) example_id = Some s' \<and>
         lastError s' = Some ''Authenticate'' \<and> status s' = Draft \<and> callSid s' = None)"
proof -
  have h1: "truthy (TWILIO_CALLER_ID example_env)" by (simp add: example_env_def)
  have h2: "truthy (PUBLIC_BASE_URL example_env)" by (simp add: example_env_def)
  have h3: "body (call_request_of example_body) = Inr example_body"
    by (simp add: call_request_of_def)
  have h4: "payloadSchema_parse example_body = Inr example_payload"
    by (simp add: payloadSchema_parse_def example_body_def example_payload_def Let_def
        payload_issues_def fromEntries_def required_string_def optional_string_def
        defaulted_string_def temperature_field_def)
  have h5: "placement example_deps example_env (refusing (ErrorObj ''Authenticate''))
     example_id example_payload = Inl (ErrorObj ''Authenticate'')"
    by (simp add: placement_def example_deps_def example_env_def refusing_def Let_def)
  have m: "failure_message (ErrorObj ''Authenticate'') = ''Authenticate''"
    by (simp add: failure_message_def)
  from placement_failure_recorded[OF h1 h2 h3 h4 h5, of "\<lparr>sessions = [], clock = 0\<rparr>", unfolded m]
    h1 h2 h3 h4 h5
  show ?thesis by blast
qed

section \<open>Status callback: results\<close>

lemma find_in_set: "find P xs = Some x \<Longrightarrow> x \<in> set xs \<and> P x"
  by (induction xs) (auto split: if_splits)

lemma distinct_find_id:
  "distinct (map sessionId ss) \<Longrightarrow> s \<in> set ss \<Longrightarrow>
     find (\<lambda>x. sessionId x = sessionId s) ss = Some s"
  by (induction ss) (auto simp: image_iff)

lemma resolve_session_in_store:
  assumes "resolve_session d req c st = Some s"
  shows "s \<in> set (sessions st)"
  using assms
  by (auto simp: resolve_session_def Let_def getSession_def lookupSessionByCallSid_def
      dest: find_in_set split: if_splits option.splits)

lemma resolve_session_getSession:
  assumes "wf_store st" and "resolve_session d req c st = Some s"
  shows "getSession st (sessionId s) = Some s"
  using assms resolve_session_in_store[OF assms(2)]
  by (simp add: wf_store_def getSession_def distinct_find_id)

lemma summaryRequest_transcript:
  "transcript a = transcript b \<Longrightarrow> summaryRequest e a = summaryRequest e b"
  by (simp add: summaryRequest_def)

lemma summarize_fails_transcript:
  "transcript a = transcript b \<Longrightarrow> summarize_fails e ai a = summarize_fails e ai b"
  by (simp add: summarize_fails_def summaryRequest_def split: sum.splits)

lemma maybeSummarize_failure:
  assumes "getSession st sid = Some s" and "summarize_fails e ai s"
  shows "fst (maybeSummarize e ai sid st) = st"
  using assms
  by (auto simp: maybeSummarize_def summarize_fails_def split: sum.splits)

lemma maybeSummarize_failure_logged:
  assumes "getSession st sid = Some s" and "summarize_fails e ai s" and "transcript s \<noteq> []"
  shows "\<exists>x. last (snd (maybeSummarize e ai sid st)) = ErrorLogged x"
  using assms
  by (auto simp: maybeSummarize_def summarize_fails_def split: sum.splits)

lemma completed_route:
  assumes "formData req = Inr fd"
    and "resolve_session d req (params_get fd ''CallSid'') st = Some s"
    and "map_option toLowerCase (params_get fd ''CallStatus'') = Some ''completed''"
  shows "twilio_status_POST d e ai req st =
           \<lparr>result = Inr ok_response,
            store_after = fst (maybeSummarize e ai (sessionId s)
                                (updateStatus st (sessionId s) Completed)),
            events = snd (maybeSummarize e ai (sessionId s)
                            (updateStatus st (sessionId s) Completed))\<rparr>"
  by (simp add: twilio_status_POST_def Let_def mapTwilioStatus_def assms split: prod.splits)

lemma summaryOf_updateStatus: "summaryOf (updateStatus st sid t) k = summaryOf st k"
  by (cases "getSession st k") (simp_all add: summaryOf_def getSession_updateStatus)

lemma summaryOf_setSummary_kept:
  assumes "summaryOf st k = Some x"
  shows "summaryOf (setSummary st sid m) k = Some x"
proof (cases "getSession st sid")
  case None
  then show ?thesis using assms by (simp add: setSummary_def)
next
  case (Some s)
  show ?thesis
  proof (cases "k = sid")
    case True
    with assms Some show ?thesis by (auto simp: setSummary_def summaryOf_def)
  next
    case False
    with assms show ?thesis
      by (cases "getSession st k")
         (simp_all add: setSummary_def Some summaryOf_def getSession_mutate)
  qed
qed

lemma summaryOf_setSummary_first:
  assumes "getSession st sid = Some s" and "summary s = None" and "status s = Completed"
  shows "summaryOf (setSummary st sid m) sid = Some m"
  using assms by (simp add: setSummary_def summaryOf_def getSession_mutate)

lemma maybeSummarize_events:
  assumes "getSession st sid = Some s"
  shows "(snd (maybeSummarize e ai sid st) \<noteq> []) = (transcript s \<noteq> [])"
  using assms by (auto simp: maybeSummarize_def split: sum.splits)

lemma maybeSummarize_kept:
  assumes "summaryOf st k = Some x"
  shows "summaryOf (fst (maybeSummarize e ai sid st)) k = Some x"
  using assms
  by (auto simp: maybeSummarize_def summaryOf_setSummary_kept split: option.splits sum.splits)

lemma maybeSummarize_success:
  assumes "getSession st sid = Some s" and "transcript s \<noteq> []"
    and "ai = Inr create" and "create (summaryRequest e s) = Inr c"
    and "summary s = None" and "status s = Completed"
  shows "summaryOf (fst (maybeSummarize e ai sid st)) sid =
           Some (case c of None \<Rightarrow> ''Call completed. Summary unavailable.''
                        | Some text \<Rightarrow> trim text)"
  using assms by (simp add: maybeSummarize_def summaryOf_setSummary_first)

lemma other_status_route:
  assumes "formData req = Inr fd"
    and "map_option toLowerCase (params_get fd ''CallStatus'') \<noteq> Some ''completed''"
  shows "twilio_status_POST d e ai req st =
           (case resolve_session d req (params_get fd ''CallSid'') st of
              None \<Rightarrow> \<lparr>result = Inr ok_response, store_after = st, events = []\<rparr>
            | Some s \<Rightarrow>
                if truthy (map_option toLowerCase (params_get fd ''CallStatus''))
                then \<lparr>result = Inr ok_response,
                      store_after = updateStatus st (sessionId s)
                        (mapTwilioStatus (the (map_option toLowerCase
                           (params_get fd ''CallStatus'')))),
                      events = []\<rparr>
                else \<lparr>result = Inr ok_response, store_after = st, events = []\<rparr>)"
  using assms
  by (cases "map_option toLowerCase (params_get fd ''CallStatus'')")
     (auto simp: twilio_status_POST_def Let_def split: option.splits prod.splits)

lemma status_route_keeps_summary:
  assumes "summaryOf st k = Some x"
  shows "summaryOf (store_after (twilio_status_POST d e ai req st)) k = Some x"
proof (cases "formData req")
  case (Inl y)
  then show ?thesis using assms by (simp add: twilio_status_POST_def)
next
  case (Inr fd)
  show ?thesis
  proof (cases "map_option toLowerCase (params_get fd ''CallStatus'') = Some ''completed''")
    case False
    show ?thesis
      using assms
      by (simp add: other_status_route[OF Inr False] summaryOf_updateStatus split: option.splits)
  next
    case True
    show ?thesis
    proof (cases "resolve_session d req (params_get fd ''CallSid'') st")
      case None
      then show ?thesis using assms Inr by (simp add: twilio_status_POST_def Let_def)
    next
      case (Some s)
      have "summaryOf (updateStatus st (sessionId s) Completed) k = Some x"
        using assms by (simp add: summaryOf_updateStatus)
      from maybeSummarize_kept[OF this] show ?thesis
        by (simp only: completed_route[OF Inr Some True] outcome.simps)
    qed
  qed
qed

text \<open>
  Claim C9. A status callback that resolves to a session and carries the status completed,
  while the summarizer's completion fails (the client cannot be obtained or the call
  throws): the store the route leaves is exactly the store after the status update alone,
  so the summary of the session is what it was (absent stays absent), its status is
  completed when that was reachable and unchanged otherwise, never failed on account of
  the summarizer; the provider is answered ok; and when the transcript is non-empty the
  last thing the route did was to log the error.
\<close>

theorem summarize_failure_only_logged:
  assumes "wf_store st" and "formData req = Inr fd"
    and "resolve_session d req (params_get fd ''CallSid'') st = Some s"
    and "map_option toLowerCase (params_get fd ''CallStatus'') = Some ''completed''"
    and "summarize_fails e ai s"
  shows "store_after (twilio_status_POST d e ai req st)
           = updateStatus st (sessionId s) Completed \<and>
         result (twilio_status_POST d e ai req st) = Inr ok_response \<and>
         summaryOf (store_after (twilio_status_POST d e ai req st)) (sessionId s) = summary s \<and>
         statusOf (store_after (twilio_status_POST d e ai req st)) (sessionId s)
           = Some (if reachable (status s) Completed then Completed else status s) \<and>
         (transcript s \<noteq> [] \<longrightarrow>
            (\<exists>x. last (events (twilio_status_POST d e ai req st)) = ErrorLogged x))"
proof -
  let ?st1 = "updateStatus st (sessionId s) Completed"
  let ?s1 = "if reachable (status s) Completed
             then s\<lparr>status := Completed, updatedAt := clock st\<rparr> else s"
  have g: "getSession st (sessionId s) = Some s"
    using resolve_session_getSession[OF assms(1) assms(3)] .
  have g1: "getSession ?st1 (sessionId s) = Some ?s1"
    by (simp add: getSession_updateStatus g)
  have tr: "transcript ?s1 = transcript s" by simp
  have f1: "summarize_fails e ai ?s1"
    using assms(5) summarize_fails_transcript[OF tr] by simp
  have out: "twilio_status_POST d e ai req st =
           \<lparr>result = Inr ok_response,
            store_after = fst (maybeSummarize e ai (sessionId s) ?st1),
            events = snd (maybeSummarize e ai (sessionId s) ?st1)\<rparr>"
    by (rule completed_route[OF assms(2) assms(3) assms(4)])
  have same: "fst (maybeSummarize e ai (sessionId s) ?st1) = ?st1"
    by (rule maybeSummarize_failure[OF g1 f1])
  have logged: "transcript s \<noteq> [] \<longrightarrow>
      (\<exists>x. last (snd (maybeSummarize e ai (sessionId s) ?st1)) = ErrorLogged x)"
    using maybeSummarize_failure_logged[OF g1 f1] tr by simp
  have sm: "summaryOf ?st1 (sessionId s) = summary s"
    by (simp add: summaryOf_def g1)
  have stt: "statusOf ?st1 (sessionId s)
           = Some (if reachable (status s) Completed then Completed else status s)"
    by (simp add: statusOf_def g1)
  have r1: "store_after (twilio_status_POST d e ai req st) = ?st1"
    by (simp only: out outcome.simps same)
  have r2: "result (twilio_status_POST d e ai req st) = Inr ok_response"
    by (simp only: out outcome.simps)
  have r3: "events (twilio_status_POST d e ai req st)
            = snd (maybeSummarize e ai (sessionId s) ?st1)"
    by (simp only: out outcome.simps)
  show ?thesis
    unfolding r1 r2 r3 using logged sm stt by blast
qed

theorem summarize_failure_only_logged_witness:
  "wf_store (example_store InProgress
      [example_turn 1 System ''Hi, this is Aurora'', example_turn 2 User ''I am interested'',
       example_turn 3 Assistant ''Great''] None) \<and>
   formData (status_request [(''CallSid'', ''CA1''), (''CallStatus'', ''Completed'')])
     = Inr [(''CallSid'', ''CA1''), (''CallStatus'', ''Completed'')] \<and>
   resolve_session example_deps
     (status_request [(''CallSid'', ''CA1''), (''CallStatus'', ''Completed'')])
     (params_get [(''CallSid'', ''CA1''), (''CallStatus'', ''Completed'')] ''CallSid'')
     (example_store InProgress
      [example_turn 1 System ''Hi, this is Aurora'', example_turn 2 User ''I am interested'',
       example_turn 3 Assistant ''Great''] None)
     = Some (example_session InProgress
      [example_turn 1 System ''Hi, this is Aurora'', example_turn 2 User ''I am interested'',
       example_turn 3 Assistant ''Great''] None) \<and>
   map_option toLowerCase
     (params_get [(''CallSid'', ''CA1''), (''CallStatus'', ''Completed'')] ''CallStatus'')
     = Some ''completed'' \<and>
   summarize_fails example_env (throwing (ErrorObj ''rate limit''))
     (example_session InProgress
      [example_turn 1 System ''Hi, this is Aurora'', example_turn 2 User ''I am interested'',
       example_turn 3 Assistant ''Great''] None) \<and>
   summaryOf (store_after (twilio_status_POST example_deps example_env
       (throwing (ErrorObj ''rate limit''))
       (status_request [(''CallSid'', ''CA1''), (''CallStatus'', ''Completed'')])
       (example_store InProgress
          [example_turn 1 System ''Hi, this is Aurora'', example_turn 2 User ''I am interested'',
           example_turn 3 Assistant ''Great''] None))) example_id = None \<and>
   statusOf (store_after (twilio_status_POST example_deps example_env
       (throwing (ErrorObj ''rate limit''))
       (status_request [(''CallSid'', ''CA1''), (''CallStatus'', ''Completed'')])
       (example_store InProgress
          [example_turn 1 System ''Hi, this is Aurora'', example_turn 2 User ''I am interested'',
           example_turn 3 Assistant ''Great''] None))) example_id = Some Completed"
proof -
  let ?ts = "[example_turn 1 System ''Hi, this is Aurora'', example_turn 2 User ''I am interested'',
       example_turn 3 Assistant ''Great'']"
  let ?fd = "[(''CallSid'', ''CA1''), (''CallStatus'', ''Completed'')]"
  have h1: "wf_store (example_store InProgress ?ts None)"
    by (simp add: wf_store_def example_store_def)
  have h2: "formData (status_request ?fd) = Inr ?fd"
    by (simp add: status_request_def)
  have h3: "resolve_session example_deps (status_request ?fd) (params_get ?fd ''CallSid'')
              (example_store InProgress ?ts None) = Some (example_session InProgress ?ts None)"
    by (simp add: resolve_session_def query_session_def fromEntries_def status_request_def
        example_url_def example_deps_def example_id_def getSession_def example_store_def
        example_session_def Let_def)
  have h4: "map_option toLowerCase (params_get ?fd ''CallStatus'') = Some ''completed''"
    by code_simp
  have h5: "summarize_fails example_env (throwing (ErrorObj ''rate limit''))
              (example_session InProgress ?ts None)"
    by (simp add: summarize_fails_def throwing_def)
  let ?out = "store_after (twilio_status_POST example_deps example_env
       (throwing (ErrorObj ''rate limit'')) (status_request ?fd)
       (example_store InProgress ?ts None))"
  let ?s = "example_session InProgress ?ts None"
  note th = summarize_failure_only_logged[OF h1 h2 h3 h4 h5]
  have a: "sessionId ?s = example_id" "summary ?s = None" "status ?s = InProgress"
    by (simp_all add: example_session_def)
  have r: "reachable InProgress Completed" by (simp add: reachable_rank)
  from th have "summaryOf ?out (sessionId ?s) = summary ?s" by blast
  then have s1: "summaryOf ?out example_id = None" unfolding a .
  from th have "statusOf ?out (sessionId ?s)
                  = Some (if reachable (status ?s) Completed then Completed else status ?s)"
    by blast
  then have s2: "statusOf ?out example_id = Some Completed" unfolding a using r by simp
  from h1 h2 h3 h4 h5 s1 s2 show ?thesis by blast
qed



text \<open>
  Claim C1 as stated does not hold of the route. First run: a session in progress whose
  transcript holds the greeting only receives the completed callback; the status moves to
  completed, the transcript without system turns is empty, and yet the completion call is
  made. Second run: a session that is already completed receives the completed callback
  again; the status does not change, no transition into completed occurs, and yet the
  completion call is made.
\<close>

theorem summarization_counterexample:
  "statusOf (example_store InProgress [example_turn 1 System ''Hi, this is Aurora''] None)
     example_id = Some InProgress \<and>
   statusOf (store_after (twilio_status_POST example_deps example_env
       (replying (Some ''No conversation.''))
       (status_request [(''CallSid'', ''CA1''), (''CallStatus'', ''completed'')])
       (example_store InProgress [example_turn 1 System ''Hi, this is Aurora''] None)))
     example_id = Some Completed \<and>
   filter (Not \<circ> is_system) [example_turn 1 System ''Hi, this is Aurora''] = [] \<and>
   length (events (twilio_status_POST example_deps example_env
       (replying (Some ''No conversation.''))
       (status_request [(''CallSid'', ''CA1''), (''CallStatus'', ''completed'')])
       (example_store InProgress [example_turn 1 System ''Hi, this is Aurora''] None))) = 1 \<and>
   statusOf (example_store Completed
       [example_turn 1 System ''Hi, this is Aurora'', example_turn 2 User ''I am interested'',
        example_turn 3 Assistant ''Great''] (Some ''old''))
     example_id = Some Completed \<and>
   statusOf (store_after (twilio_status_POST example_deps example_env (replying (Some ''new''))
       (status_request [(''CallSid'', ''CA1''), (''CallStatus'', ''completed'')])
       (example_store Completed
         [example_turn 1 System ''Hi, this is Aurora'', example_turn 2 User ''I am interested'',
          example_turn 3 Assistant ''Great''] (Some ''old''))))
     example_id = Some Completed \<and>
   length (events (twilio_status_POST example_deps example_env (replying (Some ''new''))
       (status_request [(''CallSid'', ''CA1''), (''CallStatus'', ''completed'')])
       (example_store Completed
         [example_turn 1 System ''Hi, this is Aurora'', example_turn 2 User ''I am interested'',
          example_turn 3 Assistant ''Great''] (Some ''old'')))) = 1"
  by code_simp

text \<open>
  Claim C1, amended. For a status callback on a store keyed by session identifier, the
  summarizer runs (a completion call is made or its failure logged) if and only if the
  callback resolves to a session, its status field in lower case is completed, and the
  session's transcript, system turns included, is non-empty; whether the status changed
  plays no part. A summary that is set is never changed by the route, whatever the
  completion returns. (When the summarizer runs for a session that has no summary and is
  completed after the status update, and the completion resolves, the summary becomes the
  trimmed content, or the fixed text when the content is absent.)
\<close>

theorem summarization_fires_iff:
  assumes "wf_store st" and "formData req = Inr fd"
  shows "(events (twilio_status_POST d e ai req st) \<noteq> []) =
           (case resolve_session d req (params_get fd ''CallSid'') st of
              None \<Rightarrow> False
            | Some s \<Rightarrow>
                map_option toLowerCase (params_get fd ''CallStatus'') = Some ''completed'' \<and>
                transcript s \<noteq> []) \<and>
         (summaryOf st k = Some x
          \<longrightarrow> summaryOf (store_after (twilio_status_POST d e ai req st)) k = Some x) \<and>
         (resolve_session d req (params_get fd ''CallSid'') st = Some s \<and>
          map_option toLowerCase (params_get fd ''CallStatus'') = Some ''completed'' \<and>
          transcript s \<noteq> [] \<and> ai = Inr create \<and> create (summaryRequest e s) = Inr c \<and>
          summary s = None \<and> (status s = Completed \<or> reachable (status s) Completed)
          \<longrightarrow> summaryOf (store_after (twilio_status_POST d e ai req st)) (sessionId s) =
                Some (case c of None \<Rightarrow> ''Call completed. Summary unavailable.''
                             | Some text \<Rightarrow> trim text))"
proof -
  have fires: "(events (twilio_status_POST d e ai req st) \<noteq> []) =
           (case resolve_session d req (params_get fd ''CallSid'') st of
              None \<Rightarrow> False
            | Some s \<Rightarrow>
                map_option toLowerCase (params_get fd ''CallStatus'') = Some ''completed'' \<and>
                transcript s \<noteq> [])"
  proof (cases "resolve_session d req (params_get fd ''CallSid'') st")
    case None
    then show ?thesis using assms(2)
      by (simp add: twilio_status_POST_def Let_def)
  next
    case (Some s0)
    show ?thesis
    proof (cases "map_option toLowerCase (params_get fd ''CallStatus'') = Some ''completed''")
      case False
      then show ?thesis
        by (simp add: other_status_route[OF assms(2) False] Some)
    next
      case True
      let ?st1 = "updateStatus st (sessionId s0) Completed"
      let ?s1 = "if reachable (status s0) Completed
                 then s0\<lparr>status := Completed, updatedAt := clock st\<rparr> else s0"
      have g: "getSession st (sessionId s0) = Some s0"
        using resolve_session_getSession[OF assms(1) Some] .
      have g1: "getSession ?st1 (sessionId s0) = Some ?s1"
        by (simp add: getSession_updateStatus g)
      have "events (twilio_status_POST d e ai req st)
              = snd (maybeSummarize e ai (sessionId s0) ?st1)"
        by (simp only: completed_route[OF assms(2) Some True] outcome.simps)
      with maybeSummarize_events[OF g1] Some True show ?thesis by simp
    qed
  qed
  have kept: "summaryOf (store_after (twilio_status_POST d e ai req st)) k = Some x"
    if "summaryOf st k = Some x"
    using that by (rule status_route_keeps_summary)
  have sets: "summaryOf (store_after (twilio_status_POST d e ai req st)) (sessionId s) =
                Some (case c of None \<Rightarrow> ''Call completed. Summary unavailable.''
                             | Some text \<Rightarrow> trim text)"
    if r: "resolve_session d req (params_get fd ''CallSid'') st = Some s"
      and l: "map_option toLowerCase (params_get fd ''CallStatus'') = Some ''completed''"
      and t: "transcript s \<noteq> []" and a: "ai = Inr create"
      and k: "create (summaryRequest e s) = Inr c"
      and n: "summary s = None"
      and c: "status s = Completed \<or> reachable (status s) Completed"
  proof -
    let ?st1 = "updateStatus st (sessionId s) Completed"
    let ?s1 = "if reachable (status s) Completed
               then s\<lparr>status := Completed, updatedAt := clock st\<rparr> else s"
    have g: "getSession st (sessionId s) = Some s"
      using resolve_session_getSession[OF assms(1) r] .
    have g1: "getSession ?st1 (sessionId s) = Some ?s1"
      by (simp add: getSession_updateStatus g)
    have tr: "transcript ?s1 = transcript s" by simp
    have t1: "transcript ?s1 \<noteq> []" using t by simp
    have k1: "create (summaryRequest e ?s1) = Inr c"
      using k summaryRequest_transcript[OF tr, of e] by simp
    have n1: "summary ?s1 = None" using n by simp
    have c1: "status ?s1 = Completed" using c by auto
    have "store_after (twilio_status_POST d e ai req st)
            = fst (maybeSummarize e ai (sessionId s) ?st1)"
      by (simp only: completed_route[OF assms(2) r l] outcome.simps)
    with maybeSummarize_success[OF g1 t1 a k1 n1 c1] show ?thesis by simp
  qed
  show ?thesis
    apply (intro conjI impI)
      apply (rule fires)
     apply (erule kept)
    apply (elim conjE)
    apply (rule sets; assumption)
    done
qed

theorem summarization_fires_iff_witness:
  "wf_store (example_store InProgress
      [example_turn 1 System ''Hi, this is Aurora'', example_turn 2 User ''I am interested'',
       example_turn 3 Assistant ''Great''] None) \<and>
   formData (status_request [(''CallSid'', ''CA1''), (''CallStatus'', ''completed'')])
     = Inr [(''CallSid'', ''CA1''), (''CallStatus'', ''completed'')] \<and>
   resolve_session example_deps
     (status_request [(''CallSid'', ''CA1''), (''CallStatus'', ''completed'')])
     (params_get [(''CallSid'', ''CA1''), (''CallStatus'', ''completed'')] ''CallSid'')
     (example_store InProgress
      [example_turn 1 System ''Hi, this is Aurora'', example_turn 2 User ''I am interested'',
       example_turn 3 Assistant ''Great''] None)
     = Some (example_session InProgress
      [example_turn 1 System ''Hi, this is Aurora'', example_turn 2 User ''I am interested'',
       example_turn 3 Assistant ''Great''] None) \<and>
   map_option toLowerCase
     (params_get [(''CallSid'', ''CA1''), (''CallStatus'', ''completed'')] ''CallStatus'')
     = Some ''completed'' \<and>
   events (twilio_status_POST example_deps example_env (replying (Some '' Booked a demo. ''))
       (status_request [(''CallSid'', ''CA1''), (''CallStatus'', ''completed'')])
       (example_store InProgress
          [example_turn 1 System ''Hi, this is Aurora'', example_turn 2 User ''I am interested'',
           example_turn 3 Assistant ''Great''] None)) \<noteq> [] \<and>
   summaryOf (store_after (twilio_status_POST example_deps example_env
       (replying (Some '' Booked a demo. ''))
       (status_request [(''CallSid'', ''CA1''), (''CallStatus'', ''completed'')])
       (example_store InProgress
          [example_turn 1 System ''Hi, this is Aurora'', example_turn 2 User ''I am interested'',
           example_turn 3 Assistant ''Great''] None))) example_id = Some ''Booked a demo.'' \<and>
   wf_store (example_store Completed
      [example_turn 1 System ''Hi, this is Aurora'', example_turn 2 User ''I am interested'',
       example_turn 3 Assistant ''Great''] (Some ''old'')) \<and>
   summaryOf (example_store Completed
      [example_turn 1 System ''Hi, this is Aurora'', example_turn 2 User ''I am interested'',
       example_turn 3 Assistant ''Great''] (Some ''old'')) example_id = Some ''old'' \<and>
   summaryOf (store_after (twilio_status_POST example_deps example_env (replying (Some ''new''))
       (status_request [(''CallSid'', ''CA1''), (''CallStatus'', ''completed'')])
       (example_store Completed
          [example_turn 1 System ''Hi, this is Aurora'', example_turn 2 User ''I am interested'',
           example_turn 3 Assistant ''Great''] (Some ''old'')))) example_id = Some ''old''"
proof -
  let ?ts = "[example_turn 1 System ''Hi, this is Aurora'', example_turn 2 User ''I am interested'',
       example_turn 3 Assistant ''Great'']"
  let ?fd = "[(''CallSid'', ''CA1''), (''CallStatus'', ''completed'')]"
  let ?s = "example_session InProgress ?ts None"
  let ?post = "twilio_status_POST example_deps example_env (replying (Some '' Booked a demo. ''))
       (status_request ?fd) (example_store InProgress ?ts None)"
  let ?again = "twilio_status_POST example_deps example_env (replying (Some ''new''))
       (status_request ?fd) (example_store Completed ?ts (Some ''old''))"
  have h1: "wf_store (example_store InProgress ?ts None)"
    by (simp add: wf_store_def example_store_def)
  have h2: "formData (status_request ?fd) = Inr ?fd"
    by (simp add: status_request_def)
  have h3: "resolve_session example_deps (status_request ?fd) (params_get ?fd ''CallSid'')
              (example_store InProgress ?ts None) = Some ?s"
    by (simp add: resolve_session_def query_session_def fromEntries_def status_request_def
        example_url_def example_deps_def example_id_def getSession_def example_store_def
        example_session_def Let_def)
  have h4: "map_option toLowerCase (params_get ?fd ''CallStatus'') = Some ''completed''"
    by code_simp
  have t: "transcript ?s \<noteq> []" by (simp add: example_session_def)
  have a: "replying (Some '' Booked a demo. '') = Inr (\<lambda>rq. Inr (Some '' Booked a demo. ''))"
    by (simp add: replying_def)
  have k: "(\<lambda>rq. Inr (Some '' Booked a demo. '')) (summaryRequest example_env ?s)
             = Inr (Some '' Booked a demo. '')"
    by simp
  have i: "sessionId ?s = example_id" by (simp add: example_session_def)
  have n: "summary ?s = None" by (simp add: example_session_def)
  have c: "status ?s = Completed \<or> reachable (status ?s) Completed"
    by (simp add: example_session_def reachable_rank)
  have tr: "trim '' Booked a demo. '' = ''Booked a demo.''"
    by code_simp
  note th = summarization_fires_iff[OF h1 h2, of example_deps example_env
      "replying (Some '' Booked a demo. '')" example_id "''none''" ?s
      "\<lambda>rq. Inr (Some '' Booked a demo. '')" "Some '' Booked a demo. ''"]
  from th h3 h4 t have e: "events ?post \<noteq> []" by simp
  from th h3 h4 t a k n c have "summaryOf (store_after ?post) (sessionId ?s)
      = Some (case Some '' Booked a demo. '' of
                None \<Rightarrow> ''Call completed. Summary unavailable.'' | Some text \<Rightarrow> trim text)"
    by blast
  then have s: "summaryOf (store_after ?post) example_id = Some ''Booked a demo.''"
    unfolding i by (simp add: tr)
  have w: "wf_store (example_store Completed ?ts (Some ''old''))"
    by (simp add: wf_store_def example_store_def)
  have o: "summaryOf (example_store Completed ?ts (Some ''old'')) example_id = Some ''old''"
    by (simp add: summaryOf_def getSession_def example_store_def example_session_def)
  from summarization_fires_iff[OF w h2, of example_deps example_env "replying (Some ''new'')"
      example_id "''old''"] o
  have r: "summaryOf (store_after ?again) example_id = Some ''old''" by blast
  from h1 h2 h3 h4 e s w o r show ?thesis by blast
qed

section \<open>Greeting capture: results\<close>






lemma no_system_count: "\<not> list_ex is_system xs \<Longrightarrow> filter is_system xs = []"
  by (induction xs) auto




text \<open>
  The voice script route captures the greeting of the session's own configuration: as far
  as the transcript goes, a successful \<^verbatim>\<open>GET\<close> is one call of
  \<^verbatim>\<open>ensureGreetingCaptured\<close> with that text.
\<close>

lemma voice_script_GET_captures:
  assumes "fromEntries (searchParams (url req)) ''session'' = Some sid" and "isUuid d sid"
    and "getSession st sid = Some s"
  shows "transcriptOf (store_after (voice_script_GET d req st)) sid
           = transcriptOf (ensureGreetingCaptured st sid (greeting (config s))) sid"
proof -
  from assms(3) have "sessionId s = sid"
    by (auto simp: getSession_def dest: find_in_set)
  with assms show ?thesis
    by (simp add: voice_script_GET_def Let_def transcriptOf_updateStatus)
qed

section \<open>The shape of the store is kept by every route\<close>

text \<open>
  Every store that the routes build from the empty store, one request after the other, is
  keyed by session identifier, and each of its transcripts has at most one system turn, no
  two user turns in a row and no user turn left without its reply. (Overlapping speech
  callbacks keep the first two and break the last two, as shown above.)
\<close>

lemma list_all_modify:
  assumes "list_all P ss"
    and "\<And>s0. find (\<lambda>s. sessionId s = sid) ss = Some s0 \<Longrightarrow> P s0 \<Longrightarrow> P (f s0)"
  shows "list_all P (modify sid f ss)"
  using assms by (induction ss) auto

lemma modify_modify:
  assumes "\<And>s. sessionId (f s) = sessionId s"
  shows "modify sid g (modify sid f ss) = modify sid (\<lambda>s. g (f s)) ss"
  using assms by (induction ss) auto

lemma ids_modify_const:
  "sessionId fresh = sid \<Longrightarrow> map sessionId (modify sid (\<lambda>_. fresh) ss) = map sessionId ss"
  by (induction ss) auto

lemma find_None_ids: "find (\<lambda>s. sessionId s = sid) ss = None \<Longrightarrow> sid \<notin> sessionId ` set ss"
  by (induction ss) (auto split: if_splits)

lemma session_ok_touch [simp]: "session_ok (s\<lparr>updatedAt := v\<rparr>) = session_ok s"
  by (simp add: session_ok_def)

lemma store_ok_mutate:
  assumes "store_ok st" and "\<And>s. sessionId (f s) = sessionId s"
    and "\<And>s0. getSession st sid = Some s0 \<Longrightarrow> session_ok s0 \<Longrightarrow> session_ok (f s0)"
  shows "store_ok (mutate st sid f)"
proof (cases "getSession st sid")
  case None
  then show ?thesis using assms(1) by (simp add: mutate_def)
next
  case (Some s0)
  have ids: "map sessionId (modify sid (\<lambda>s. (f s)\<lparr>updatedAt := clock st\<rparr>) (sessions st))
             = map sessionId (sessions st)"
    by (rule map_modify_same) (simp add: assms(2))
  have "list_all session_ok (modify sid (\<lambda>s. (f s)\<lparr>updatedAt := clock st\<rparr>) (sessions st))"
  proof (rule list_all_modify)
    show "list_all session_ok (sessions st)" using assms(1) by (simp add: store_ok_def)
  next
    fix s1 assume "find (\<lambda>s. sessionId s = sid) (sessions st) = Some s1" and "session_ok s1"
    then show "session_ok ((f s1)\<lparr>updatedAt := clock st\<rparr>)"
      using assms(3)[of s1] by (simp add: getSession_def)
  qed
  with ids assms(1) Some show ?thesis
    by (simp add: mutate_def store_ok_def wf_store_def)
qed

lemma store_ok_updateStatus: "store_ok st \<Longrightarrow> store_ok (updateStatus st sid t)"
  by (auto simp: updateStatus_def session_ok_def intro!: store_ok_mutate split: option.splits)

lemma store_ok_setSummary: "store_ok st \<Longrightarrow> store_ok (setSummary st sid m)"
  by (auto simp: setSummary_def session_ok_def intro!: store_ok_mutate split: option.splits)

lemma store_ok_setError: "store_ok st \<Longrightarrow> store_ok (setError st sid m)"
  by (auto simp: setError_def session_ok_def intro!: store_ok_mutate)

lemma store_ok_setCallSid: "store_ok st \<Longrightarrow> store_ok (setCallSid st sid c)"
  by (auto simp: setCallSid_def session_ok_def intro!: store_ok_mutate split: option.splits)

lemma no_double_user_append:
  "no_double_user ts \<Longrightarrow> role g \<noteq> User \<Longrightarrow> no_double_user (ts @ [g])"
  by (induction ts rule: no_double_user.induct) auto

lemma coherent_greeting:
  "coherent ts \<Longrightarrow> role g = System \<Longrightarrow> coherent (ts @ [g])"
  by (simp add: coherent_def no_double_user_append)

lemma one_greeting_first:
  "\<not> list_ex is_system ts \<Longrightarrow> is_system g \<Longrightarrow> one_greeting (ts @ [g])"
  by (simp add: one_greeting_def no_system_count)

lemma store_ok_ensureGreetingCaptured:
  "store_ok st \<Longrightarrow> store_ok (ensureGreetingCaptured st sid grt)"
  by (auto simp: ensureGreetingCaptured_def session_ok_def coherent_greeting
      one_greeting_first is_system_def
      intro!: store_ok_mutate split: option.splits)

lemma store_ok_createSession:
  assumes "store_ok st"
  shows "store_ok (createSession st sid cfg)"
proof (cases "getSession st sid")
  case None
  then have "sid \<notin> sessionId ` set (sessions st)"
    by (simp add: getSession_def find_None_ids)
  with assms None show ?thesis
    by (simp add: createSession_def store_ok_def wf_store_def session_ok_def coherent_def
        one_greeting_def)
next
  case (Some old)
  have "list_all session_ok (modify sid (\<lambda>_. \<lparr>sessionId = sid, callSid = None, config = cfg,
          status = Draft, transcript = [], summary = None, lastError = None,
          createdAt = clock st, updatedAt = clock st\<rparr>) (sessions st))"
    using assms
    by (intro list_all_modify)
       (simp_all add: store_ok_def session_ok_def coherent_def one_greeting_def)
  with assms Some show ?thesis
    by (simp add: createSession_def store_ok_def wf_store_def ids_modify_const)
qed

lemma session_ok_append2:
  assumes "session_ok s" and "r \<noteq> System" and "r \<noteq> User"
  shows "session_ok (s\<lparr>transcript := transcript s @
            [\<lparr>turn_id = i, role = User, content = c, timestamp = i\<rparr>,
             \<lparr>turn_id = j, role = r, content = c', timestamp = j\<rparr>]\<rparr>)"
proof -
  let ?u = "\<lparr>turn_id = i, role = User, content = c, timestamp = i\<rparr>"
  let ?a = "\<lparr>turn_id = j, role = r, content = c', timestamp = j\<rparr>"
  have "one_greeting (transcript s @ [?u, ?a])"
    using assms by (simp add: session_ok_def one_greeting_def is_system_def)
  moreover have "coherent (transcript s @ [?u, ?a])"
    using assms by (intro coherent_append2) (simp_all add: session_ok_def)
  ultimately show ?thesis by (simp add: session_ok_def)
qed

lemma store_ok_exchange:
  assumes "store_ok st"
  shows "store_ok (appendMessage (appendMessage st sid User c) sid Assistant c')"
proof (cases "getSession st sid")
  case None
  then show ?thesis using assms by (simp add: appendMessage_def mutate_def)
next
  case (Some s0)
  let ?f = "\<lambda>s. s\<lparr>transcript := transcript s @
                [\<lparr>turn_id = clock st, role = User, content = c, timestamp = clock st\<rparr>],
              updatedAt := clock st\<rparr>"
  let ?g = "\<lambda>s. s\<lparr>transcript := transcript s @
                [\<lparr>turn_id = Suc (clock st), role = Assistant, content = c',
                  timestamp = Suc (clock st)\<rparr>],
              updatedAt := Suc (clock st)\<rparr>"
  have st1: "appendMessage st sid User c
             = \<lparr>sessions = modify sid ?f (sessions st), clock = Suc (clock st)\<rparr>"
    using Some by (simp add: appendMessage_def mutate_def)
  have g1: "getSession \<lparr>sessions = modify sid ?f (sessions st), clock = Suc (clock st)\<rparr> sid
            = Some (?f s0)"
    using Some find_modify[of ?f sid sid "sessions st"] by (simp add: getSession_def)
  have st2: "appendMessage (appendMessage st sid User c) sid Assistant c'
             = \<lparr>sessions = modify sid ?g (modify sid ?f (sessions st)),
                clock = Suc (Suc (clock st))\<rparr>"
    unfolding st1 by (simp add: appendMessage_def mutate_def g1)
  have both: "modify sid ?g (modify sid ?f (sessions st))
              = modify sid (\<lambda>s. ?g (?f s)) (sessions st)"
    by (rule modify_modify) simp
  have ids: "map sessionId (modify sid (\<lambda>s. ?g (?f s)) (sessions st))
             = map sessionId (sessions st)"
    by (rule map_modify_same) simp
  have "list_all session_ok (modify sid (\<lambda>s. ?g (?f s)) (sessions st))"
  proof (rule list_all_modify)
    show "list_all session_ok (sessions st)" using assms by (simp add: store_ok_def)
  next
    fix s1 assume "session_ok s1"
    from session_ok_append2[OF this, of Assistant "clock st" c "Suc (clock st)" c']
    show "session_ok (?g (?f s1))" by (simp add: session_ok_def)
  qed
  with ids assms show ?thesis
    by (simp add: st2 both store_ok_def wf_store_def)
qed

lemma store_ok_voice_script_GET:
  "store_ok st \<Longrightarrow> store_ok (store_after (voice_script_GET d req st))"
  by (simp add: voice_script_GET_def Let_def store_ok_updateStatus
      store_ok_ensureGreetingCaptured split: option.splits)

lemma store_ok_handleConversationTurn:
  "store_ok st \<Longrightarrow> store_ok (store_after (handleConversationTurn d e ai req sid st))"
  by (simp add: handleConversationTurn_def turn_begin_def turn_resume_def Let_def
      store_ok_updateStatus store_ok_exchange
      split: option.splits sum.splits prod.splits)

lemma store_ok_voice_script_POST:
  "store_ok st \<Longrightarrow> store_ok (store_after (voice_script_POST d e ai req st))"
  by (simp add: voice_script_POST_def store_ok_handleConversationTurn split: option.splits)

lemma store_ok_maybeSummarize:
  "store_ok st \<Longrightarrow> maybeSummarize e ai sid st = (st', evs) \<Longrightarrow> store_ok st'"
  by (auto simp: maybeSummarize_def store_ok_setSummary split: option.splits sum.splits if_splits)

lemma store_ok_twilio_status_POST:
  "store_ok st \<Longrightarrow> store_ok (store_after (twilio_status_POST d e ai req st))"
  by (auto simp: twilio_status_POST_def Let_def store_ok_updateStatus
      dest: store_ok_maybeSummarize[OF store_ok_updateStatus]
      split: option.splits sum.splits prod.splits)

lemma store_ok_calls_POST:
  "store_ok st \<Longrightarrow> store_ok (store_after (calls_POST d e tw uuid req st))"
  by (simp add: calls_POST_def Let_def placement_failed_def store_ok_createSession
      store_ok_setError store_ok_setCallSid store_ok_updateStatus split: sum.splits)

lemma store_ok_empty: "store_ok \<lparr>sessions = [], clock = n\<rparr>"
  by (simp add: store_ok_def wf_store_def)

end
